theory Spec2Isabelle
  imports Main "HOL-Library.Word" "HOL-Library.Multiset"
begin

section \<open>JavaScript strings\<close>

text \<open>
  A JavaScript string is a sequence of 16-bit code units. \<open>js\<close> embeds an ASCII literal
  of the source, so that \<open>js ''quiz''\<close> is the string the source writes \<^verbatim>\<open>"quiz"\<close>.
\<close>

type_synonym jsstring = "16 word list"

definition js :: "string \<Rightarrow> jsstring" where
  "js s = map of_char s"

text \<open>\<^verbatim>\<open>String.prototype.trim\<close> strips WhiteSpace and LineTerminator code units.\<close>

definition is_js_space :: "16 word \<Rightarrow> bool" where
  "is_js_space c \<longleftrightarrow>
     c = 0x9 \<or> c = 0xA \<or> c = 0xB \<or> c = 0xC \<or> c = 0xD \<or> c = 0x20 \<or> c = 0xA0 \<or>
     c = 0x1680 \<or> (0x2000 \<le> c \<and> c \<le> 0x200A) \<or> c = 0x2028 \<or> c = 0x2029 \<or>
     c = 0x202F \<or> c = 0x205F \<or> c = 0x3000 \<or> c = 0xFEFF"

definition trim :: "jsstring \<Rightarrow> jsstring" where
  "trim s = rev (dropWhile is_js_space (rev (dropWhile is_js_space s)))"

text \<open>
  \<^verbatim>\<open>s.replace(/pat/g, "")\<close> for a literal pattern: every occurrence, found left to
  right without overlap, is deleted.
\<close>

fun remove_all :: "jsstring \<Rightarrow> jsstring \<Rightarrow> jsstring" where
  "remove_all pat [] = []"
| "remove_all pat (c # cs) =
     (if pat \<noteq> [] \<and> take (length pat) (c # cs) = pat
      then remove_all pat (drop (length pat) (c # cs))
      else c # remove_all pat cs)"

text \<open>\<^verbatim>\<open>indexOf\<close> and \<^verbatim>\<open>lastIndexOf\<close> of a single code unit; \<open>-1\<close> when absent.\<close>

fun indexOf :: "16 word \<Rightarrow> jsstring \<Rightarrow> int" where
  "indexOf c [] = -1"
| "indexOf c (x # xs) =
     (if x = c then 0 else (let i = indexOf c xs in if i < 0 then -1 else i + 1))"

definition lastIndexOf :: "16 word \<Rightarrow> jsstring \<Rightarrow> int" where
  "lastIndexOf c s =
     (let i = indexOf c (rev s) in if i < 0 then -1 else int (length s) - 1 - i)"

text \<open>\<^verbatim>\<open>s.substring(a, b)\<close>, called by the source only with \<open>0 \<le> a < b \<le> length s\<close>.\<close>

definition substring :: "int \<Rightarrow> int \<Rightarrow> jsstring \<Rightarrow> jsstring" where
  "substring a b s = take (nat (b - a)) (drop (nat a) s)"

section \<open>JSON values as JavaScript sees them\<close>

text \<open>
  The value of \<^verbatim>\<open>JSON.parse\<close>. A number keeps the decimal it was written as,
  \<open>JNum m e\<close> standing for \<open>m * 10 ^ e\<close>; an object keeps its members in source order.
  \<^verbatim>\<open>undefined\<close> is \<open>None\<close> of \<open>json option\<close>.
\<close>

datatype json =
    JNull
  | JBool bool
  | JNum int int
  | JStr jsstring
  | JArr "json list"
  | JObj "(jsstring \<times> json) list"

datatype js_error = TypeError | SyntaxError | Error

text \<open>
  Truthiness. A number is falsy when it is zero as a double: the decimal \<open>m * 10 ^ e\<close>
  rounds to zero exactly when its magnitude is at most \<open>2 ^ -1075\<close>.
\<close>

fun truthy :: "json \<Rightarrow> bool" where
  "truthy JNull = False"
| "truthy (JBool b) = b"
| "truthy (JNum m e) = (m \<noteq> 0 \<and> (0 \<le> e \<or> 10 ^ nat (- e) < \<bar>m\<bar> * 2 ^ 1075))"
| "truthy (JStr s) = (s \<noteq> [])"
| "truthy (JArr xs) = True"
| "truthy (JObj kvs) = True"

fun truthy_u :: "json option \<Rightarrow> bool" where
  "truthy_u None = False"
| "truthy_u (Some v) = truthy v"

fun typeof :: "json option \<Rightarrow> jsstring" where
  "typeof None = js ''undefined''"
| "typeof (Some JNull) = js ''object''"
| "typeof (Some (JBool b)) = js ''boolean''"
| "typeof (Some (JNum m e)) = js ''number''"
| "typeof (Some (JStr s)) = js ''string''"
| "typeof (Some (JArr xs)) = js ''object''"
| "typeof (Some (JObj kvs)) = js ''object''"

fun isArray :: "json option \<Rightarrow> bool" where
  "isArray (Some (JArr xs)) = True"
| "isArray _ = False"

text \<open>
  Property read \<^verbatim>\<open>v.k\<close>, for the names the source reads (\<^verbatim>\<open>quiz\<close>, \<^verbatim>\<open>question\<close>,
  \<^verbatim>\<open>options\<close>, \<^verbatim>\<open>answer\<close>, \<^verbatim>\<open>name\<close>, \<^verbatim>\<open>chapters\<close>, \<^verbatim>\<open>chapterNumber\<close>): none of them
  is defined on a prototype, so only an object's own member answers. Reading a
  property of \<^verbatim>\<open>null\<close> throws a TypeError. Of two members with one key,
  \<^verbatim>\<open>JSON.parse\<close> keeps the later.
\<close>

fun get_prop :: "json \<Rightarrow> jsstring \<Rightarrow> js_error + json option" where
  "get_prop JNull k = Inl TypeError"
| "get_prop (JObj kvs) k = Inr (map_of (rev kvs) k)"
| "get_prop v k = Inr None"

text \<open>The elements of an array and \<^verbatim>\<open>a.length\<close>, both read only after \<^verbatim>\<open>Array.isArray(a)\<close>.\<close>

fun array_items :: "json option \<Rightarrow> json list" where
  "array_items (Some (JArr xs)) = xs"
| "array_items _ = []"

definition array_length :: "json option \<Rightarrow> nat" where
  "array_length a = length (array_items a)"

text \<open>\<^verbatim>\<open>Array.prototype.filter\<close> with a callback that may throw: the first throw ends it.\<close>

fun filterE :: "('a \<Rightarrow> js_error + bool) \<Rightarrow> 'a list \<Rightarrow> js_error + 'a list" where
  "filterE p [] = Inr []"
| "filterE p (x # xs) =
     (case p x of
        Inl e \<Rightarrow> Inl e
      | Inr b \<Rightarrow>
          (case filterE p xs of
             Inl e \<Rightarrow> Inl e
           | Inr ys \<Rightarrow> Inr (if b then x # ys else ys)))"

section \<open>\<^verbatim>\<open>JSON.parse\<close>\<close>

text \<open>
  \<^verbatim>\<open>JSON.parse\<close> is a builtin of the language. The handlers below take it as a
  parameter, so what is proved of them holds of any parser; \<open>JSON_parse\<close> is the
  parser of the ECMAScript JSON grammar, for running the handlers on a concrete text.
  It reads the text into tokens and the tokens into a value with a stack of the open
  arrays and objects. \<open>None\<close> is the SyntaxError.
\<close>

datatype token =
    TLBrace | TRBrace | TLBracket | TRBracket | TColon | TComma
  | TStr jsstring | TNum int int | TTrue | TFalse | TNull

definition is_json_ws :: "16 word \<Rightarrow> bool" where
  "is_json_ws c \<longleftrightarrow> c = 0x20 \<or> c = 0x9 \<or> c = 0xA \<or> c = 0xD"

definition is_digit :: "16 word \<Rightarrow> bool" where
  "is_digit c \<longleftrightarrow> 0x30 \<le> c \<and> c \<le> 0x39"

definition hex_val :: "16 word \<Rightarrow> nat option" where
  "hex_val c =
     (if 0x30 \<le> c \<and> c \<le> 0x39 then Some (unat c - 0x30)
      else if 0x41 \<le> c \<and> c \<le> 0x46 then Some (unat c - 0x41 + 10)
      else if 0x61 \<le> c \<and> c \<le> 0x66 then Some (unat c - 0x61 + 10)
      else None)"

definition unescape :: "16 word \<Rightarrow> 16 word option" where
  "unescape e =
     (if e = 0x22 then Some 0x22
      else if e = 0x5C then Some 0x5C
      else if e = 0x2F then Some 0x2F
      else if e = 0x62 then Some 0x8
      else if e = 0x66 then Some 0xC
      else if e = 0x6E then Some 0xA
      else if e = 0x72 then Some 0xD
      else if e = 0x74 then Some 0x9
      else None)"

text \<open>
  \<open>lex_string\<close> reads a string after its opening quote and gives its code units and
  the rest of the text: a quote ends it, a backslash starts one of the escapes of the
  grammar, a control character is an error.
\<close>

definition cons_unit ::
  "16 word \<Rightarrow> (jsstring \<times> jsstring) option \<Rightarrow> (jsstring \<times> jsstring) option" where
  "cons_unit c r = (case r of None \<Rightarrow> None | Some (s, rest) \<Rightarrow> Some (c # s, rest))"

fun lex_string :: "jsstring \<Rightarrow> (jsstring \<times> jsstring) option" where
  "lex_string [] = None"
| "lex_string (c # cs) =
     (if c = 0x22 then Some ([], cs)
      else if c = 0x5C then
        (case cs of
           [] \<Rightarrow> None
         | e # r \<Rightarrow>
             if e = 0x75 then
               (case r of
                  h1 # h2 # h3 # h4 # r' \<Rightarrow>
                    (case (hex_val h1, hex_val h2, hex_val h3, hex_val h4) of
                       (Some a, Some b, Some c', Some d) \<Rightarrow>
                         cons_unit (of_nat (((a * 16 + b) * 16 + c') * 16 + d)) (lex_string r')
                     | _ \<Rightarrow> None)
                | _ \<Rightarrow> None)
             else
               (case unescape e of
                  None \<Rightarrow> None
                | Some u \<Rightarrow> cons_unit u (lex_string r)))
      else if c < 0x20 then None
      else cons_unit c (lex_string cs))"

text \<open>
  \<open>lex_number\<close> reads a number: an optional minus, an integer part without a leading
  zero, an optional fraction, an optional exponent. Its value is the mantissa and the
  power of ten.
\<close>

definition digits_val :: "jsstring \<Rightarrow> nat" where
  "digits_val ds = foldl (\<lambda>a c. 10 * a + (unat c - 0x30)) 0 ds"

definition lex_frac :: "jsstring \<Rightarrow> (jsstring \<times> jsstring) option" where
  "lex_frac s =
     (case s of
        [] \<Rightarrow> Some ([], s)
      | c # r \<Rightarrow>
          if c = 0x2E then
            (if takeWhile is_digit r = [] then None
             else Some (takeWhile is_digit r, dropWhile is_digit r))
          else Some ([], s))"

definition lex_sign :: "jsstring \<Rightarrow> int \<times> jsstring" where
  "lex_sign s =
     (case s of
        [] \<Rightarrow> (1, s)
      | c # r \<Rightarrow> if c = 0x2B then (1, r) else if c = 0x2D then (-1, r) else (1, s))"

definition lex_exp :: "jsstring \<Rightarrow> (int \<times> jsstring) option" where
  "lex_exp s =
     (case s of
        [] \<Rightarrow> Some (0, s)
      | c # r \<Rightarrow>
          if c = 0x65 \<or> c = 0x45 then
            (case lex_sign r of
               (sg, r1) \<Rightarrow>
                 if takeWhile is_digit r1 = [] then None
                 else Some (sg * int (digits_val (takeWhile is_digit r1)), dropWhile is_digit r1))
          else Some (0, s))"

definition lex_int :: "jsstring \<Rightarrow> (jsstring \<times> jsstring) option" where
  "lex_int s =
     (case s of
        [] \<Rightarrow> None
      | d # r \<Rightarrow>
          if \<not> is_digit d then None
          else if d = 0x30 then Some ([d], r)
          else Some (takeWhile is_digit s, dropWhile is_digit s))"

definition lex_number :: "jsstring \<Rightarrow> (int \<times> int \<times> jsstring) option" where
  "lex_number s =
     (case (case s of [] \<Rightarrow> (1, s) | c # r \<Rightarrow> if c = 0x2D then (-1, r) else (1::int, s)) of
        (sg, s1) \<Rightarrow>
          (case lex_int s1 of
             None \<Rightarrow> None
           | Some (ip, s2) \<Rightarrow>
               (case lex_frac s2 of
                  None \<Rightarrow> None
                | Some (fp, s3) \<Rightarrow>
                    (case lex_exp s3 of
                       None \<Rightarrow> None
                     | Some (ex, s4) \<Rightarrow>
                         Some (sg * int (digits_val (ip @ fp)), ex - int (length fp), s4)))))"

text \<open>The tokens of a text; white space between them is skipped.\<close>

function tokenize :: "jsstring \<Rightarrow> token list option" where
  "tokenize [] = Some []"
| "tokenize (c # cs) =
     (if is_json_ws c then tokenize cs
      else if c = 0x7B then map_option (Cons TLBrace) (tokenize cs)
      else if c = 0x7D then map_option (Cons TRBrace) (tokenize cs)
      else if c = 0x5B then map_option (Cons TLBracket) (tokenize cs)
      else if c = 0x5D then map_option (Cons TRBracket) (tokenize cs)
      else if c = 0x3A then map_option (Cons TColon) (tokenize cs)
      else if c = 0x2C then map_option (Cons TComma) (tokenize cs)
      else if c = 0x22 then
        (case lex_string cs of
           None \<Rightarrow> None
         | Some (s, rest) \<Rightarrow> map_option (Cons (TStr s)) (tokenize rest))
      else if c = 0x2D \<or> is_digit c then
        (case lex_number (c # cs) of
           None \<Rightarrow> None
         | Some (m, e, rest) \<Rightarrow> map_option (Cons (TNum m e)) (tokenize rest))
      else if take 4 (c # cs) = js ''true'' then map_option (Cons TTrue) (tokenize (drop 3 cs))
      else if take 5 (c # cs) = js ''false'' then map_option (Cons TFalse) (tokenize (drop 4 cs))
      else if take 4 (c # cs) = js ''null'' then map_option (Cons TNull) (tokenize (drop 3 cs))
      else None)"
  by pat_completeness auto
termination
proof (relation "measure length")
  have cons_unit_Some: "\<exists>s'. r = Some (s', rest)"
    if "cons_unit c r = Some (s, rest)" for c r s rest
    using that by (auto simp: cons_unit_def split: option.splits)
  have lex_string_shorter: "length rest < length s"
    if "lex_string s = Some (x, rest)" for s x rest
    using that
  proof (induction s arbitrary: x rest rule: length_induct)
    case (1 s)
    show ?case
    proof (cases s)
      case Nil
      with "1.prems" show ?thesis by simp
    next
      case (Cons c cs)
      note s = Cons
      consider (quote) "c = 0x22" | (esc) "c \<noteq> 0x22" "c = 0x5C"
        | (plain) "c \<noteq> 0x22" "c \<noteq> 0x5C"
        by blast
      then show ?thesis
      proof cases
        case quote
        with "1.prems" s show ?thesis by simp
      next
        case plain
        with "1.prems" s obtain x' where "lex_string cs = Some (x', rest)"
          by (auto split: if_splits dest!: cons_unit_Some)
        then have "length rest < length cs" using "1.IH" s by auto
        with s show ?thesis by simp
      next
        case esc
        show ?thesis
        proof (cases cs)
          case Nil
          with esc "1.prems" s show ?thesis by simp
        next
          case (Cons e r)
          note cs = Cons
          show ?thesis
          proof (cases "e = 0x75")
            case False
            with esc "1.prems" s cs obtain x' where "lex_string r = Some (x', rest)"
              by (auto split: option.splits dest!: cons_unit_Some)
            then have "length rest < length r" using "1.IH" s cs by auto
            with s cs show ?thesis by simp
          next
            case True
            with esc "1.prems" s cs obtain h1 h2 h3 h4 r'
              where r: "r = h1 # h2 # h3 # h4 # r'"
              by (auto split: list.splits)
            with True esc "1.prems" s cs obtain x' where "lex_string r' = Some (x', rest)"
              by (auto split: option.splits dest!: cons_unit_Some)
            then have "length rest < length r'" using "1.IH" s cs r by auto
            with s cs r show ?thesis by simp
          qed
        qed
      qed
    qed
  qed
  have lex_int_shorter: "length rest < length s"
    if a: "lex_int s = Some (x, rest)" for s x rest
  proof (cases s)
    case Nil
    with a show ?thesis by (simp add: lex_int_def)
  next
    case (Cons d r)
    have "length (dropWhile is_digit r) \<le> length r" by (rule length_dropWhile_le)
    with a Cons show ?thesis
      by (auto simp: lex_int_def split: if_splits)
  qed
  have lex_frac_shorter: "length rest \<le> length s"
    if a: "lex_frac s = Some (x, rest)" for s x rest
  proof (cases s)
    case Nil
    with a show ?thesis by (simp add: lex_frac_def)
  next
    case (Cons d r)
    have "length (dropWhile is_digit r) \<le> length r" by (rule length_dropWhile_le)
    with a Cons show ?thesis
      by (auto simp: lex_frac_def split: if_splits)
  qed
  have lex_sign_shorter: "length rest \<le> length s"
    if "lex_sign s = (x, rest)" for s x rest
    using that by (cases s) (auto simp: lex_sign_def split: if_splits)
  have lex_exp_shorter: "length rest \<le> length s"
    if a: "lex_exp s = Some (x, rest)" for s x rest
  proof (cases s)
    case Nil
    with a show ?thesis by (simp add: lex_exp_def)
  next
    case (Cons d r)
    obtain sg r1 where sg: "lex_sign r = (sg, r1)" by (cases "lex_sign r")
    have 1: "length r1 \<le> length r" using sg by (rule lex_sign_shorter)
    have 2: "length (dropWhile is_digit r1) \<le> length r1" by (rule length_dropWhile_le)
    from a Cons sg 1 2 show ?thesis
      by (auto simp: lex_exp_def split: if_splits)
  qed
  have lex_number_shorter: "length rest < length s"
    if a: "lex_number s = Some (m, e, rest)" for s m e rest
  proof -
    obtain sg s1 where
      h: "(case s of [] \<Rightarrow> (1, s) | c # r \<Rightarrow> if c = 0x2D then (-1, r) else (1::int, s)) = (sg, s1)"
      by (cases "(case s of [] \<Rightarrow> (1, s) | c # r \<Rightarrow> if c = 0x2D then (-1, r) else (1::int, s))")
    have l1: "length s1 \<le> length s"
      using h by (cases s) (auto split: if_splits)
    from a h obtain ip s2 fp s3 ex where
      "lex_int s1 = Some (ip, s2)" "lex_frac s2 = Some (fp, s3)" "lex_exp s3 = Some (ex, rest)"
      by (auto simp: lex_number_def split: option.splits)
    then have "length s2 < length s1" "length s3 \<le> length s2" "length rest \<le> length s3"
      by (auto dest: lex_int_shorter lex_frac_shorter lex_exp_shorter)
    with l1 show ?thesis by linarith
  qed
  show "wf (measure length)" by simp
  show "(y, c # cs) \<in> measure length"
    if "lex_string cs = Some x2" "(x, y) = x2" for c cs x2 x y
  proof -
    from that have "lex_string cs = Some (x, y)" by simp
    then have "length y < length cs" by (rule lex_string_shorter)
    then show ?thesis by simp
  qed
  show "(ya, c # cs) \<in> measure length"
    if "lex_number (c # cs) = Some x2" "(x, y) = x2" "(xa, ya) = y" for c cs x2 x y xa ya
  proof -
    from that have "lex_number (c # cs) = Some (x, xa, ya)" by simp
    then have "length ya < length (c # cs)" by (rule lex_number_shorter)
    then show ?thesis by simp
  qed
qed auto

text \<open>
  The parser runs over the tokens with a stack of frames, one for each array or
  object that is open: the elements read so far, or the members read so far and the
  key whose value is being read. \<open>Got v\<close> is the state after a complete value.
\<close>

datatype frame =
    InArr "json list"
  | InObj "(jsstring \<times> json) list" jsstring

datatype pstate =
    Val "frame list"
  | ArrStart "frame list"
  | ObjStart "frame list"
  | Key "(jsstring \<times> json) list" "frame list"
  | Colon "(jsstring \<times> json) list" jsstring "frame list"
  | Got json "frame list"

fun start_value :: "frame list \<Rightarrow> token \<Rightarrow> pstate option" where
  "start_value stk (TStr s) = Some (Got (JStr s) stk)"
| "start_value stk (TNum m e) = Some (Got (JNum m e) stk)"
| "start_value stk TTrue = Some (Got (JBool True) stk)"
| "start_value stk TFalse = Some (Got (JBool False) stk)"
| "start_value stk TNull = Some (Got JNull stk)"
| "start_value stk TLBracket = Some (ArrStart stk)"
| "start_value stk TLBrace = Some (ObjStart stk)"
| "start_value stk _ = None"

fun step :: "pstate \<Rightarrow> token \<Rightarrow> pstate option" where
  "step (Val stk) t = start_value stk t"
| "step (ArrStart stk) t =
     (if t = TRBracket then Some (Got (JArr []) stk) else start_value (InArr [] # stk) t)"
| "step (ObjStart stk) t =
     (case t of
        TRBrace \<Rightarrow> Some (Got (JObj []) stk)
      | TStr k \<Rightarrow> Some (Colon [] k stk)
      | _ \<Rightarrow> None)"
| "step (Key ps stk) t = (case t of TStr k \<Rightarrow> Some (Colon ps k stk) | _ \<Rightarrow> None)"
| "step (Colon ps k stk) t = (if t = TColon then Some (Val (InObj ps k # stk)) else None)"
| "step (Got v []) t = None"
| "step (Got v (InArr es # stk)) t =
     (case t of
        TComma \<Rightarrow> Some (Val (InArr (v # es) # stk))
      | TRBracket \<Rightarrow> Some (Got (JArr (rev (v # es))) stk)
      | _ \<Rightarrow> None)"
| "step (Got v (InObj ps k # stk)) t =
     (case t of
        TComma \<Rightarrow> Some (Key ((k, v) # ps) stk)
      | TRBrace \<Rightarrow> Some (Got (JObj (rev ((k, v) # ps))) stk)
      | _ \<Rightarrow> None)"

fun run :: "pstate \<Rightarrow> token list \<Rightarrow> json option" where
  "run st [] = (case st of Got v [] \<Rightarrow> Some v | _ \<Rightarrow> None)"
| "run st (t # ts) = (case step st t of None \<Rightarrow> None | Some st' \<Rightarrow> run st' ts)"

definition JSON_parse :: "jsstring \<Rightarrow> json option" where
  "JSON_parse text = (case tokenize text of None \<Rightarrow> None | Some ts \<Rightarrow> run (Val []) ts)"

section \<open>Numbers and the coercions of the language\<close>

text \<open>
  A JavaScript number is a double. \<open>Double m e\<close> is the finite value \<open>m * 2 ^ e\<close>, kept
  with \<open>m\<close> odd, or as \<open>Double 0 0\<close> for zero, so that two finite numbers are the same
  value exactly when they are the same term; the two zeros, which \<^verbatim>\<open>===\<close> and
  \<^verbatim>\<open>isNaN\<close> do not tell apart, are one. \<open>round_ratio num den\<close> is the double nearest
  to the positive fraction \<open>num / den\<close>, a tie going to the even significand: 53 bits
  of significand, the least exponent \<open>-1074\<close>, infinity from \<open>2 ^ 1024\<close> on.
  \<open>to_double m e\<close> is the double of the decimal \<open>m * 10 ^ e\<close>, the value of a numeric
  literal.
\<close>

datatype number = NaN | PlusInfinity | MinusInfinity | Double int int

function bit_length :: "int \<Rightarrow> int" where
  "bit_length n = (if n \<le> 0 then 0 else 1 + bit_length (n div 2))"
  by pat_completeness auto
termination
  by (relation "measure nat") auto

declare bit_length.simps [simp del]

function odd_part :: "int \<Rightarrow> int \<Rightarrow> number" where
  "odd_part r q =
     (if r \<le> 0 then Double 0 0
      else if even r then odd_part (r div 2) (q + 1)
      else Double r q)"
  by pat_completeness auto
termination
  by (relation "measure (\<lambda>(r, q). nat r)") auto

declare odd_part.simps [simp del]

definition round_half_even :: "int \<Rightarrow> int \<Rightarrow> int" where
  "round_half_even n d =
     (let q = n div d; r = n mod d
      in if 2 * r < d then q
         else if d < 2 * r then q + 1
         else if even q then q else q + 1)"

definition round_ratio :: "int \<Rightarrow> int \<Rightarrow> number" where
  "round_ratio num den =
     (if num \<le> 0 then Double 0 0
      else
        (let k0 = bit_length num - bit_length den;
             k = (if den * 2 ^ nat k0 \<le> num * 2 ^ nat (- k0) then k0 else k0 - 1);
             q = max (k - 52) (- 1074);
             r = round_half_even (num * 2 ^ nat (- q)) (den * 2 ^ nat q)
         in if 0 \<le> q \<and> 2 ^ 1024 \<le> r * 2 ^ nat q then PlusInfinity
            else odd_part r q))"

definition negate :: "number \<Rightarrow> number" where
  "negate x =
     (case x of
        NaN \<Rightarrow> NaN
      | PlusInfinity \<Rightarrow> MinusInfinity
      | MinusInfinity \<Rightarrow> PlusInfinity
      | Double m e \<Rightarrow> Double (- m) e)"

definition to_double :: "int \<Rightarrow> int \<Rightarrow> number" where
  "to_double m e =
     (let x = (if 0 \<le> e then round_ratio (\<bar>m\<bar> * 10 ^ nat e) 1
               else round_ratio \<bar>m\<bar> (10 ^ nat (- e)))
      in if m < 0 then negate x else x)"

text \<open>
  The number a string stands for (StringToNumber): white space is trimmed; the empty
  text is 0; a binary, octal or hexadecimal integer (\<^verbatim>\<open>0b\<close>, \<^verbatim>\<open>0o\<close>, \<^verbatim>\<open>0x\<close>, no
  sign) or a decimal with an optional sign, fraction and exponent, or \<^verbatim>\<open>Infinity\<close>, is
  its value; any other text is \<^verbatim>\<open>NaN\<close>.
\<close>

definition digit_val :: "16 word \<Rightarrow> int" where
  "digit_val c = (case hex_val c of None \<Rightarrow> 0 | Some v \<Rightarrow> int v)"

definition radix_literal :: "int \<Rightarrow> jsstring \<Rightarrow> int option" where
  "radix_literal radix ds =
     (if ds \<noteq> [] \<and> list_all (\<lambda>c. hex_val c \<noteq> None \<and> digit_val c < radix) ds
      then Some (foldl (\<lambda>a c. radix * a + digit_val c) 0 ds)
      else None)"

definition non_decimal_literal :: "jsstring \<Rightarrow> int option" where
  "non_decimal_literal t =
     (case t of
        z # x # ds \<Rightarrow>
          if z \<noteq> 0x30 then None
          else if x = 0x78 \<or> x = 0x58 then radix_literal 16 ds
          else if x = 0x6F \<or> x = 0x4F then radix_literal 8 ds
          else if x = 0x62 \<or> x = 0x42 then radix_literal 2 ds
          else None
      | _ \<Rightarrow> None)"

definition decimal_literal :: "jsstring \<Rightarrow> number" where
  "decimal_literal t =
     (case lex_sign t of
        (sg, u) \<Rightarrow>
          if u = js ''Infinity'' then (if sg = 1 then PlusInfinity else MinusInfinity)
          else
            (let ip = takeWhile is_digit u;
                 r1 = dropWhile is_digit u;
                 fp = (case r1 of
                         [] \<Rightarrow> []
                       | c # r \<Rightarrow> if c = 0x2E then takeWhile is_digit r else []);
                 r2 = (case r1 of
                         [] \<Rightarrow> []
                       | c # r \<Rightarrow> if c = 0x2E then dropWhile is_digit r else r1)
             in if ip = [] \<and> fp = [] then NaN
                else
                  (case lex_exp r2 of
                     Some (ex, []) \<Rightarrow>
                       to_double (sg * int (digits_val (ip @ fp))) (ex - int (length fp))
                   | _ \<Rightarrow> NaN)))"

definition string_to_number :: "jsstring \<Rightarrow> number" where
  "string_to_number s =
     (let t = trim s
      in if t = [] then Double 0 0
         else
           (case non_decimal_literal t of
              Some n \<Rightarrow> to_double n 0
            | None \<Rightarrow> decimal_literal t))"

text \<open>
  The text of a value, as a template literal and \<^verbatim>\<open>Number\<close> ask for it, comes from
  its \<^verbatim>\<open>toString\<close>. For an object of \<^verbatim>\<open>JSON.parse\<close> that is the builtin, unless the
  object has a member of its own under that name: the member is no function, and the
  conversion throws a TypeError. An array joins the texts of its elements with commas,
  \<^verbatim>\<open>null\<close> standing as the empty text, so it throws when an element does.
\<close>

fun toString_throws :: "json \<Rightarrow> bool" where
  "toString_throws (JObj kvs) = (js ''toString'' \<in> fst ` set kvs)"
| "toString_throws (JArr xs) = (\<exists>x \<in> set xs. toString_throws x)"
| "toString_throws v = False"

text \<open>
  \<^verbatim>\<open>Number(v)\<close>. An object or an array is first turned into its text: the number of
  a text with a comma, of \<^verbatim>\<open>true\<close>, \<^verbatim>\<open>false\<close> or \<^verbatim>\<open>[object Object]\<close> is \<^verbatim>\<open>NaN\<close>; the
  text of an array of one element is the text of that element, and the text of a
  number reads back as the number. \<open>text_number v\<close> is the number of the text of
  \<open>v\<close> as an array has it; \<open>to_number\<close> is \<^verbatim>\<open>Number\<close>, \<^verbatim>\<open>undefined\<close> being \<open>None\<close>.
\<close>

fun text_number :: "json \<Rightarrow> number" where
  "text_number JNull = Double 0 0"
| "text_number (JBool b) = NaN"
| "text_number (JNum m e) = to_double m e"
| "text_number (JStr s) = string_to_number s"
| "text_number (JArr []) = Double 0 0"
| "text_number (JArr [x]) = text_number x"
| "text_number (JArr (x # y # zs)) = NaN"
| "text_number (JObj kvs) = NaN"

definition to_number :: "json option \<Rightarrow> js_error + number" where
  "to_number v =
     (case v of
        None \<Rightarrow> Inr NaN
      | Some (JBool b) \<Rightarrow> Inr (if b then Double 1 0 else Double 0 0)
      | Some w \<Rightarrow> if toString_throws w then Inl TypeError else Inr (text_number w))"

text \<open>
  \<^verbatim>\<open>a === b\<close> for two values that stand at different places (a stored document and
  a request, or two entries of a request): primitives of one type are compared by
  value, numbers as doubles; an object or an array is only ever equal to itself.
  \<open>strict_eq_number v x\<close> is \<^verbatim>\<open>v === x\<close> for a number \<open>x\<close>.
\<close>

fun strict_eq :: "json option \<Rightarrow> json option \<Rightarrow> bool" where
  "strict_eq None None = True"
| "strict_eq (Some JNull) (Some JNull) = True"
| "strict_eq (Some (JBool a)) (Some (JBool b)) = (a = b)"
| "strict_eq (Some (JNum m e)) (Some (JNum m' e')) = (to_double m e = to_double m' e')"
| "strict_eq (Some (JStr s)) (Some (JStr t)) = (s = t)"
| "strict_eq _ _ = False"

fun strict_eq_number :: "json option \<Rightarrow> number \<Rightarrow> bool" where
  "strict_eq_number (Some (JNum m e)) x = (to_double m e = x)"
| "strict_eq_number _ x = False"

section \<open>The quiz sanitizer\<close>

text \<open>\<^verbatim>\<open>cleanQuizData\<close>: strip the code fences, trim, slice from the first brace to the last.\<close>

definition cleanQuizData :: "jsstring \<Rightarrow> jsstring" where
  "cleanQuizData quizData =
     (let cleaned = trim (remove_all (js ''```'') (remove_all (js ''```json'') quizData));
          jsonStartPos = indexOf 0x7B cleaned;
          jsonEndPos = lastIndexOf 0x7D cleaned + 1
      in if jsonStartPos \<ge> 0 \<and> jsonEndPos > jsonStartPos
         then substring jsonStartPos jsonEndPos cleaned
         else cleaned)"

text \<open>
  The callback both \<^verbatim>\<open>parseQuizData\<close> and the PUT handler give to \<^verbatim>\<open>filter\<close>:
  \<^verbatim>\<open>item.question && typeof item.question === "string" && item.options &&
  Array.isArray(item.options) && item.options.length >= 2 && item.answer &&
  typeof item.answer === "string"\<close>, with its short-circuit order. The result is the
  truthiness of the conjunction.
\<close>

definition quiz_item_ok :: "json \<Rightarrow> js_error + bool" where
  "quiz_item_ok item =
     (case get_prop item (js ''question'') of
        Inl e \<Rightarrow> Inl e
      | Inr question \<Rightarrow>
          if \<not> (truthy_u question \<and> typeof question = js ''string'') then Inr False
          else
            (case get_prop item (js ''options'') of
               Inl e \<Rightarrow> Inl e
             | Inr options \<Rightarrow>
                 if \<not> (truthy_u options \<and> isArray options \<and> array_length options \<ge> 2)
                 then Inr False
                 else
                   (case get_prop item (js ''answer'') of
                      Inl e \<Rightarrow> Inl e
                    | Inr answer \<Rightarrow>
                        Inr (truthy_u answer \<and> typeof answer = js ''string''))))"

text \<open>
  \<^verbatim>\<open>parseQuizData\<close>. \<^verbatim>\<open>JSON.parse\<close> is a parameter \<open>parse\<close>, \<open>None\<close> where it throws
  a SyntaxError. \<open>parseQuizData_try\<close> is the body of the \<^verbatim>\<open>try\<close>, \<open>Inl\<close> where it
  throws; \<open>parseQuizData\<close> adds the \<^verbatim>\<open>catch\<close>, which returns the empty list.
\<close>

definition parseQuizData_try ::
  "(jsstring \<Rightarrow> json option) \<Rightarrow> jsstring \<Rightarrow> js_error + json list" where
  "parseQuizData_try parse quizData =
     (case parse (cleanQuizData quizData) of
        None \<Rightarrow> Inl SyntaxError
      | Some parsedData \<Rightarrow>
          if \<not> truthy parsedData then Inr []
          else
            (case get_prop parsedData (js ''quiz'') of
               Inl e \<Rightarrow> Inl e
             | Inr quiz \<Rightarrow>
                 if \<not> truthy_u quiz \<or> \<not> isArray quiz then Inr []
                 else filterE quiz_item_ok (array_items quiz)))"

definition parseQuizData ::
  "(jsstring \<Rightarrow> json option) \<Rightarrow> jsstring \<Rightarrow> js_error + json list" where
  "parseQuizData parse quizData =
     (case parseQuizData_try parse quizData of
        Inl e \<Rightarrow> Inr []
      | Inr quiz \<Rightarrow> Inr quiz)"

text \<open>
  What a quiz entry is said to be. \<open>member v k\<close> is the member \<open>k\<close> of the object
  \<open>v\<close>, if \<open>v\<close> is an object that has one.
\<close>

definition member :: "json \<Rightarrow> jsstring \<Rightarrow> json option" where
  "member v k = (case v of JObj kvs \<Rightarrow> map_of (rev kvs) k | _ \<Rightarrow> None)"

definition nonempty_string :: "json option \<Rightarrow> bool" where
  "nonempty_string v = (case v of Some (JStr s) \<Rightarrow> s \<noteq> [] | _ \<Rightarrow> False)"

definition list_of_at_least_two :: "json option \<Rightarrow> bool" where
  "list_of_at_least_two v = (case v of Some (JArr xs) \<Rightarrow> 2 \<le> length xs | _ \<Rightarrow> False)"

fun is_string :: "json \<Rightarrow> bool" where
  "is_string (JStr s) = True"
| "is_string _ = False"

definition list_of_at_least_two_strings :: "json option \<Rightarrow> bool" where
  "list_of_at_least_two_strings v =
     (case v of Some (JArr xs) \<Rightarrow> 2 \<le> length xs \<and> list_all is_string xs | _ \<Rightarrow> False)"

text \<open>The list under \<^verbatim>\<open>quiz\<close> of a parsed value, if it has a \<^verbatim>\<open>quiz\<close> field that is a list.\<close>

definition quiz_list :: "json \<Rightarrow> json list option" where
  "quiz_list v = (case member v (js ''quiz'') of Some (JArr items) \<Rightarrow> Some items | _ \<Rightarrow> None)"

section \<open>The content generator\<close>

text \<open>
  \<^verbatim>\<open>generateContent(text, type)\<close>. The text is cut into chunks of \<open>maxLength\<close> code
  units by the loop \<^verbatim>\<open>for (i = 0; i < text.length; i += maxLength)\<close>,
  \<open>textChunks_from\<close> being the loop from index \<open>i\<close>.
\<close>

datatype gen_type = Summary | Quiz

definition maxLength :: nat where
  "maxLength = 90000"

function textChunks_from :: "nat \<Rightarrow> jsstring \<Rightarrow> jsstring list" where
  "textChunks_from i text =
     (if i < length text
      then take maxLength (drop i text) # textChunks_from (i + maxLength) text
      else [])"
  by pat_completeness auto
termination
  by (relation "measure (\<lambda>(i, text). length text - i)") (auto simp: maxLength_def)

declare textChunks_from.simps [simp del]

definition textChunks :: "jsstring \<Rightarrow> jsstring list" where
  "textChunks text = textChunks_from 0 text"

definition prompt :: "gen_type \<Rightarrow> jsstring \<Rightarrow> jsstring" where
  \<open>prompt type chunk =
     (case type of
        Summary \<Rightarrow> js ''Generate a concise summary of this content:'' @ [0xA, 0xA] @ chunk
      | Quiz \<Rightarrow>
          concat (map (\<lambda>line. js line @ [0xA])
            [''Generate a multiple-choice quiz from this content in JSON format like this:'',
             ''{'',
             ''  "quiz": ['',
             ''    {'',
             ''      "question": "What is the capital of France?",'',
             ''      "options": ["Berlin", "Madrid", "Paris", "Rome"],'',
             ''      "answer": "Paris"'',
             ''    }'',
             ''  ]'',
             ''}'']) @ [0xA] @ chunk)\<close>

text \<open>
  The service is outside the repository. One request \<^verbatim>\<open>axios.post(API_URL, ...)\<close> either
  rejects or resolves; a resolved response is kept as what the handler reads from it,
  \<^verbatim>\<open>result?.candidates?.[0]?.content?.parts?.[0]?.text\<close>: the text of the first part of
  the first candidate, a string, or \<open>None\<close> where the chain ends in \<^verbatim>\<open>undefined\<close>.
  The service is a parameter \<open>post\<close>, asked with the index of the chunk and the prompt.
\<close>

datatype api_result = Rejects | Resolves "jsstring option"

text \<open>\<^verbatim>\<open>result?.candidates?.[0]?.content?.parts?.[0]?.text || ""\<close>\<close>

fun response_text :: "api_result \<Rightarrow> jsstring" where
  "response_text (Resolves (Some t)) = t"
| "response_text _ = []"

text \<open>\<^verbatim>\<open>Array.prototype.join\<close> on strings.\<close>

fun join :: "jsstring \<Rightarrow> jsstring list \<Rightarrow> jsstring" where
  "join sep [] = []"
| "join sep [x] = x"
| "join sep (x # y # ys) = x @ sep @ join sep (y # ys)"

text \<open>
  The value of the \<^verbatim>\<open>catch\<close>. \<^verbatim>\<open>JSON.stringify\<close> of the placeholder object writes its
  members in order with no white space.
\<close>

definition fallback :: "gen_type \<Rightarrow> jsstring" where
  \<open>fallback type =
     (case type of
        Summary \<Rightarrow> js ''Summary generation failed.''
      | Quiz \<Rightarrow>
          js (''{"quiz":[{"question":"What is the capital of France?",'' @
              ''"options":["Berlin","Madrid","Paris","Rome"],"answer":"Paris"}]}''))\<close>

text \<open>
  \<^verbatim>\<open>Promise.all\<close> rejects as soon as one request rejects, and the \<^verbatim>\<open>catch\<close> then
  answers for the whole call; otherwise the responses stand in the order of the chunks.
\<close>

definition generateContent ::
  "(nat \<Rightarrow> jsstring \<Rightarrow> api_result) \<Rightarrow> jsstring \<Rightarrow> gen_type \<Rightarrow> jsstring" where
  "generateContent post text type =
     (let responses =
            map (\<lambda>(i, chunk). post i (prompt type chunk)) (enumerate 0 (textChunks text))
      in if Rejects \<in> set responses then fallback type
         else join (js '' '') (map response_text responses))"

section \<open>The exam documents and the activity log\<close>

text \<open>
  Modelled from the spec: the schema of the exam documents (the model \<^verbatim>\<open>Exam\<close> that
  the handlers import) is declared outside the files at hand. The records follow the
  data model of the spec, an exam owning its subjects and a subject its chapters, with
  the fields the handlers read and write. A chapter's quiz is the list of entries the
  filter let through. Its \<^verbatim>\<open>chapterNumber\<close> is the value the handler that made the
  chapter put there, which POST copies from the request as it came: a number in a
  request of the client, but any value of \<^verbatim>\<open>JSON.parse\<close>, or \<^verbatim>\<open>undefined\<close>, in
  general. What the schema makes of a value that is no number when the document is
  saved is not in the sources; the model keeps the value.
\<close>

record chapter_doc =
  chapterNumber :: "json option"
  notesFileUrl :: jsstring
  publicId :: jsstring
  summary :: jsstring
  quiz :: "json list"

record subject_doc =
  name :: jsstring
  chapters :: "chapter_doc list"

record exam_doc =
  exam :: jsstring
  subjects :: "subject_doc list"

text \<open>
  The activity record of \<^verbatim>\<open>IStudentActivity\<close>. Its fields \<^verbatim>\<open>exam\<close>, \<^verbatim>\<open>subject\<close> and
  \<^verbatim>\<open>chapterNumber\<close> are \<open>activity_exam\<close>, \<open>activity_subject\<close> and
  \<open>activity_chapterNumber\<close> here, apart from the fields of the exam documents. The
  database is the two collections, each in the order of insertion: \<^verbatim>\<open>findOne\<close> gives
  the first match, \<^verbatim>\<open>save\<close> writes a document back in its place or appends a new
  one, \<^verbatim>\<open>create\<close> appends.
\<close>

record quiz_result =
  score :: int
  totalQuestions :: int
  answers :: "jsstring \<rightharpoonup> jsstring"

record activity =
  userId :: jsstring
  userName :: jsstring
  activity_exam :: jsstring
  activity_subject :: jsstring
  activity_chapterNumber :: int
  activityType :: jsstring
  quizResult :: "quiz_result option"
  timestamp :: int

record db =
  exams :: "exam_doc list"
  activities :: "activity list"

text \<open>
  What lies outside the repository and decides a request: whether a call to the
  database driver resolves, what the file host answers to an upload (slot by subject
  index and chapter index; the PUT handler uploads at slot \<open>0 0\<close>), whether it
  deletes, the text of an uploaded PDF (\<open>None\<close> where the download or the extraction
  fails), the text service, and the clock. \<open>cast_query\<close> is what the driver makes of
  a \<^verbatim>\<open>chapterNumber\<close> in a query on the activity records that is no number: the test
  on stored chapter numbers it asks the database for, or \<open>None\<close> where it refuses the
  value and the call rejects.
\<close>

datatype upload_outcome = UploadThrows | Uploaded "jsstring option" "jsstring option"

record env =
  connect_ok :: bool
  findOne_ok :: bool
  save_ok :: bool
  deleteMany_ok :: bool
  cast_query :: "json \<Rightarrow> (int \<Rightarrow> bool) option"
  create_ok :: bool
  find_ok :: bool
  deleteFromCloudinary_ok :: bool
  uploadToCloudinary :: "nat \<Rightarrow> nat \<Rightarrow> upload_outcome"
  pdfText :: "nat \<Rightarrow> nat \<Rightarrow> jsstring option"
  api_post :: "nat \<Rightarrow> nat \<Rightarrow> gen_type \<Rightarrow> nat \<Rightarrow> jsstring \<Rightarrow> api_result"
  now :: int

text \<open>\<^verbatim>\<open>!s\<close> for a form or body field that is a string or missing.\<close>

fun falsy :: "jsstring option \<Rightarrow> bool" where
  "falsy None = True"
| "falsy (Some s) = (s = [])"

text \<open>\<^verbatim>\<open>Array.prototype.findIndex\<close>: the first index that satisfies, \<open>None\<close> for \<open>-1\<close>.\<close>

fun findIndex :: "('a \<Rightarrow> bool) \<Rightarrow> 'a list \<Rightarrow> nat option" where
  "findIndex P [] = None"
| "findIndex P (x # xs) = (if P x then Some 0 else map_option Suc (findIndex P xs))"

text \<open>\<^verbatim>\<open>a.splice(k, 1)\<close>\<close>

definition splice1 :: "nat \<Rightarrow> 'a list \<Rightarrow> 'a list" where
  "splice1 k xs = take k xs @ drop (Suc k) xs"

text \<open>A list of results that may throw: the first throw is the result.\<close>

fun mapE :: "('a \<Rightarrow> js_error + 'b) \<Rightarrow> 'a list \<Rightarrow> js_error + 'b list" where
  "mapE f [] = Inr []"
| "mapE f (x # xs) =
     (case f x of
        Inl e \<Rightarrow> Inl e
      | Inr y \<Rightarrow> (case mapE f xs of Inl e \<Rightarrow> Inl e | Inr ys \<Rightarrow> Inr (y # ys)))"

text \<open>\<^verbatim>\<open>xs.filter((x) => x !== null)\<close>\<close>

fun not_null :: "'a option list \<Rightarrow> 'a list" where
  "not_null [] = []"
| "not_null (None # xs) = not_null xs"
| "not_null (Some x # xs) = x # not_null xs"

section \<open>Create or extend an exam: POST\<close>

text \<open>
  The merge of lines 265 to 287. \<open>merge_chapter\<close> is the body of the inner
  \<^verbatim>\<open>forEach\<close>, \<open>merge_subject\<close> the body of the outer one; a \<^verbatim>\<open>find\<close> gives the first
  match, which is then changed in place. Chapters are matched by \<^verbatim>\<open>===\<close> on the stored
  and the incoming \<^verbatim>\<open>chapterNumber\<close>.
\<close>

definition merge_chapter :: "chapter_doc list \<Rightarrow> chapter_doc \<Rightarrow> chapter_doc list" where
  "merge_chapter existing newChapter =
     (case findIndex (\<lambda>c. strict_eq (chapterNumber c) (chapterNumber newChapter)) existing of
        None \<Rightarrow> existing @ [newChapter]
      | Some k \<Rightarrow>
          existing[k := (existing ! k)
            \<lparr>notesFileUrl := notesFileUrl newChapter,
             publicId := publicId newChapter,
             summary := summary newChapter,
             quiz := quiz newChapter\<rparr>])"

definition merge_subject :: "subject_doc list \<Rightarrow> subject_doc \<Rightarrow> subject_doc list" where
  "merge_subject existing newSubject =
     (case findIndex (\<lambda>s. name s = name newSubject) existing of
        None \<Rightarrow> existing @ [newSubject]
      | Some j \<Rightarrow>
          existing[j := (existing ! j)
            \<lparr>chapters := foldl merge_chapter (chapters (existing ! j)) (chapters newSubject)\<rparr>])"

definition merge_exam :: "exam_doc \<Rightarrow> subject_doc list \<Rightarrow> exam_doc" where
  "merge_exam existingExam validSubjects =
     existingExam\<lparr>subjects := foldl merge_subject (subjects existingExam) validSubjects\<rparr>"

text \<open>
  The request is a form. \<^verbatim>\<open>formData.get\<close> gives \<^verbatim>\<open>null\<close>, a string or a file; a
  file is truthy, \<^verbatim>\<open>null\<close> and the empty string are not. The text that
  \<^verbatim>\<open>JSON.parse\<close> reads from an entry is the entry turned into a string.
\<close>

datatype form_entry = NoEntry | TextEntry jsstring | FileEntry

fun entry_falsy :: "form_entry \<Rightarrow> bool" where
  "entry_falsy NoEntry = True"
| "entry_falsy (TextEntry s) = (s = [])"
| "entry_falsy FileEntry = False"

fun entry_text :: "form_entry \<Rightarrow> jsstring" where
  "entry_text NoEntry = js ''null''"
| "entry_text (TextEntry s) = s"
| "entry_text FileEntry = js ''[object File]''"

text \<open>
  What the callbacks read of a subject and a chapter, which are any values of
  \<^verbatim>\<open>JSON.parse\<close>. \<open>name_trim\<close> is \<^verbatim>\<open>subject.name?.trim()\<close>: \<^verbatim>\<open>undefined\<close> for a name
  that is \<^verbatim>\<open>undefined\<close> or \<^verbatim>\<open>null\<close>, the trimmed name for a string, and a TypeError
  for any other name, which has no \<^verbatim>\<open>trim\<close> to call. \<open>chapters_length\<close> is
  \<^verbatim>\<open>subject.chapters?.length\<close>: the length of an array or a string, the member
  \<^verbatim>\<open>length\<close> of an object, \<^verbatim>\<open>undefined\<close> otherwise. \<open>chapter_label\<close> is
  \<^verbatim>\<open>chapter.chapterNumber\<close> as both branches of the inner callback put it into a
  template literal, the warning of line 193 and the file name of line 201.
\<close>

definition name_trim :: "json option \<Rightarrow> js_error + json option" where
  "name_trim nm =
     (case nm of
        None \<Rightarrow> Inr None
      | Some JNull \<Rightarrow> Inr None
      | Some (JStr s) \<Rightarrow> Inr (Some (JStr (trim s)))
      | Some v \<Rightarrow> Inl TypeError)"

definition chapters_length :: "json option \<Rightarrow> json option" where
  "chapters_length chs =
     (case chs of
        Some (JArr xs) \<Rightarrow> Some (JNum (int (length xs)) 0)
      | Some (JStr s) \<Rightarrow> Some (JNum (int (length s)) 0)
      | Some (JObj kvs) \<Rightarrow> map_of (rev kvs) (js ''length'')
      | _ \<Rightarrow> None)"

definition chapter_label :: "json \<Rightarrow> js_error + json option" where
  "chapter_label chapter =
     (case get_prop chapter (js ''chapterNumber'') of
        Inl e \<Rightarrow> Inl e
      | Inr None \<Rightarrow> Inr None
      | Inr (Some v) \<Rightarrow> if toString_throws v then Inl TypeError else Inr (Some v))"

text \<open>
  The callback of the inner \<^verbatim>\<open>map\<close> (lines 190 to 241): \<open>Inr None\<close> is \<^verbatim>\<open>return null\<close>.
  Without a file the chapter is skipped, after the warning has read its number. A
  text in the place of the file has no \<^verbatim>\<open>arrayBuffer\<close> to call, and an \<^verbatim>\<open>exam\<close> that
  is a file has no \<^verbatim>\<open>replace\<close>.
\<close>

definition processChapter ::
  "(jsstring \<Rightarrow> json option) \<Rightarrow> env \<Rightarrow> form_entry \<Rightarrow> (nat \<Rightarrow> nat \<Rightarrow> form_entry)
     \<Rightarrow> nat \<Rightarrow> nat \<Rightarrow> json \<Rightarrow> js_error + chapter_doc option" where
  "processChapter parse env examField files subjectIndex chapterIndex chapter =
     (if entry_falsy (files subjectIndex chapterIndex) then
        (case chapter_label chapter of Inl e \<Rightarrow> Inl e | Inr v \<Rightarrow> Inr None)
      else if files subjectIndex chapterIndex \<noteq> FileEntry then Inl TypeError
      else if examField = FileEntry then Inl TypeError
      else
        (case chapter_label chapter of
           Inl e \<Rightarrow> Inl e
         | Inr chapterNo \<Rightarrow>
             (case uploadToCloudinary env subjectIndex chapterIndex of
                UploadThrows \<Rightarrow> Inl Error
              | Uploaded url public_id \<Rightarrow>
                  (case (url, public_id) of
                     (Some u, Some pid) \<Rightarrow>
                       if u = [] \<or> pid = [] then Inl Error
                       else
                         (let pdf = (case pdfText env subjectIndex chapterIndex of
                                       None \<Rightarrow> js ''Text extraction failed.''
                                     | Some t \<Rightarrow> t);
                              summaryText =
                                generateContent (api_post env subjectIndex chapterIndex Summary)
                                  pdf Summary;
                              quizData =
                                generateContent (api_post env subjectIndex chapterIndex Quiz)
                                  pdf Quiz
                          in case parseQuizData parse quizData of
                               Inl e \<Rightarrow> Inl e
                             | Inr quizItems \<Rightarrow>
                                 Inr (Some \<lparr>chapterNumber = chapterNo, notesFileUrl = u,
                                            publicId = pid, summary = summaryText,
                                            quiz = quizItems\<rparr>))
                   | _ \<Rightarrow> Inl Error))))"

text \<open>
  The callback of the outer \<^verbatim>\<open>map\<close> (lines 183 to 254). A subject that is \<^verbatim>\<open>null\<close>
  throws at its first read. Past the test of line 184 the name is a string that is
  not blank and \<^verbatim>\<open>chapters\<close> has a truthy length; only an array has the \<^verbatim>\<open>map\<close> that
  line 190 calls.
\<close>

definition processSubject ::
  "(jsstring \<Rightarrow> json option) \<Rightarrow> env \<Rightarrow> form_entry \<Rightarrow> (nat \<Rightarrow> nat \<Rightarrow> form_entry)
     \<Rightarrow> nat \<Rightarrow> json \<Rightarrow> js_error + subject_doc option" where
  "processSubject parse env examField files subjectIndex subject =
     (case get_prop subject (js ''name'') of
        Inl e \<Rightarrow> Inl e
      | Inr nm \<Rightarrow>
          (case name_trim nm of
             Inl e \<Rightarrow> Inl e
           | Inr (Some (JStr trimmed)) \<Rightarrow>
               if trimmed = [] then Inr None
               else
                 (case get_prop subject (js ''chapters'') of
                    Inl e \<Rightarrow> Inl e
                  | Inr chs \<Rightarrow>
                      if \<not> truthy_u (chapters_length chs) then Inr None
                      else
                        (case chs of
                           Some (JArr items) \<Rightarrow>
                             (case mapE (\<lambda>(chapterIndex, chapter).
                                           processChapter parse env examField files
                                             subjectIndex chapterIndex chapter)
                                     (enumerate 0 items) of
                                Inl e \<Rightarrow> Inl e
                              | Inr processedChapters \<Rightarrow>
                                  (let validChapters = not_null processedChapters
                                   in if validChapters = [] then Inr None
                                      else Inr (Some \<lparr>name = trimmed,
                                                       chapters = validChapters\<rparr>)))
                         | _ \<Rightarrow> Inl TypeError))
           | Inr other \<Rightarrow> Inr None))"

text \<open>
  The handler. Its result is the status of the response and the database after it; a
  throw anywhere in the body is the status 500 of the outer \<^verbatim>\<open>catch\<close>. \<open>POST_save\<close>
  is its last part, lines 263 to 312: find the exam, merge or create, save. The
  handler comes to it only with an \<^verbatim>\<open>exam\<close> that is a text, since every chapter of a
  valid subject has passed \<^verbatim>\<open>exam.replace\<close>.
\<close>

definition POST_save :: "env \<Rightarrow> db \<Rightarrow> jsstring \<Rightarrow> subject_doc list \<Rightarrow> nat \<times> db" where
  "POST_save env d e validSubjects =
     (if \<not> findOne_ok env then (500, d)
      else
        (case findIndex (\<lambda>x. exam x = e) (exams d) of
           Some i \<Rightarrow>
             if \<not> save_ok env then (500, d)
             else (200, d\<lparr>exams := (exams d)[i := merge_exam (exams d ! i) validSubjects]\<rparr>)
         | None \<Rightarrow>
             if \<not> save_ok env then (500, d)
             else (201, d\<lparr>exams := exams d @ [\<lparr>exam = e, subjects = validSubjects\<rparr>]\<rparr>)))"

definition POST ::
  "(jsstring \<Rightarrow> json option) \<Rightarrow> env \<Rightarrow> db \<Rightarrow> form_entry \<Rightarrow> form_entry
     \<Rightarrow> (nat \<Rightarrow> nat \<Rightarrow> form_entry) \<Rightarrow> nat \<times> db" where
  "POST parse env d examField subjectsField files =
     (if \<not> connect_ok env then (500, d)
      else
        (case parse (entry_text subjectsField) of
           None \<Rightarrow> (500, d)
         | Some subjs \<Rightarrow>
             if entry_falsy examField then (400, d)
             else if \<not> truthy subjs then (400, d)
             else if \<not> isArray (Some subjs) then (400, d)
             else
               (case mapE (\<lambda>(subjectIndex, subject).
                             processSubject parse env examField files subjectIndex subject)
                       (enumerate 0 (array_items (Some subjs))) of
                  Inl err \<Rightarrow> (500, d)
                | Inr processedSubjects \<Rightarrow>
                    (let validSubjects = not_null processedSubjects
                     in if validSubjects = [] then (400, d)
                        else
                          (case examField of
                             TextEntry e \<Rightarrow> POST_save env d e validSubjects
                           | _ \<Rightarrow> (500, d))))))"





section \<open>Deleting a file at the host, best effort\<close>

text \<open>
  \<^verbatim>\<open>try { await deleteFromCloudinary(publicId) } catch (error) { console.error(...) }\<close>,
  as PUT and DELETE both write it: the call may throw, the \<^verbatim>\<open>catch\<close> logs and goes on.
\<close>

definition deleteFromCloudinary :: "env \<Rightarrow> jsstring \<Rightarrow> js_error + unit" where
  "deleteFromCloudinary env pid = (if deleteFromCloudinary_ok env then Inr () else Inl Error)"

definition try_deleteFromCloudinary :: "env \<Rightarrow> jsstring \<Rightarrow> js_error + unit" where
  "try_deleteFromCloudinary env pid =
     (case deleteFromCloudinary env pid of Inl e \<Rightarrow> Inr () | Inr u \<Rightarrow> Inr u)"

section \<open>Update a chapter: PUT\<close>

text \<open>
  The request: the form fields \<^verbatim>\<open>exam\<close> and \<^verbatim>\<open>subject\<close>, the value of
  \<^verbatim>\<open>parseInt\<close> on the field \<^verbatim>\<open>chapterNumber\<close> (\<open>None\<close> for \<^verbatim>\<open>NaN\<close>), whether a
  \<^verbatim>\<open>notesFile\<close> came, and the field \<^verbatim>\<open>quiz\<close>. The chapter is the first whose stored
  number is \<^verbatim>\<open>===\<close> that integer.

  \<open>update_notes\<close> is lines 435 to 470. The old file, if the chapter names one, is
  deleted best effort; a failed or invalid upload throws; a failed extraction gives
  the fixed summary. A form that cannot be read ends in the outer \<^verbatim>\<open>catch\<close> before
  any of this: the model starts from a form that was read.
\<close>

definition update_notes :: "env \<Rightarrow> bool \<Rightarrow> chapter_doc \<Rightarrow> js_error + chapter_doc" where
  "update_notes env notesFile ch =
     (if \<not> notesFile then Inr ch
      else
        (case (if publicId ch \<noteq> [] then try_deleteFromCloudinary env (publicId ch)
               else Inr ()) of
           Inl e \<Rightarrow> Inl e
         | Inr u \<Rightarrow>
             (case uploadToCloudinary env 0 0 of
                UploadThrows \<Rightarrow> Inl Error
              | Uploaded url public_id \<Rightarrow>
                  (case (url, public_id) of
                     (Some u, Some pid) \<Rightarrow>
                       if u = [] \<or> pid = [] then Inl Error
                       else
                         Inr (ch\<lparr>notesFileUrl := u, publicId := pid,
                                summary :=
                                  (case pdfText env 0 0 of
                                     None \<Rightarrow> js ''Summary generation failed.''
                                   | Some t \<Rightarrow>
                                       generateContent (api_post env 0 0 Summary) t Summary)\<rparr>)
                   | _ \<Rightarrow> Inl Error))))"

text \<open>
  \<open>update_quiz\<close> is lines 472 to 497: \<open>Inl 400\<close> is the \<^verbatim>\<open>return\<close> of the
  \<^verbatim>\<open>catch\<close>, reached when \<^verbatim>\<open>JSON.parse\<close> or the filter callback throws.
\<close>

definition update_quiz ::
  "(jsstring \<Rightarrow> json option) \<Rightarrow> jsstring option \<Rightarrow> chapter_doc \<Rightarrow> nat + chapter_doc" where
  "update_quiz parse quizString ch =
     (case quizString of
        None \<Rightarrow> Inr ch
      | Some qs \<Rightarrow>
          if qs = [] then Inr ch
          else
            (case parse qs of
               None \<Rightarrow> Inl 400
             | Some q \<Rightarrow>
                 if isArray (Some q) then
                   (case filterE quiz_item_ok (array_items (Some q)) of
                      Inl e \<Rightarrow> Inl 400
                    | Inr kept \<Rightarrow> Inr (ch\<lparr>quiz := kept\<rparr>))
                 else Inr ch))"

definition PUT ::
  "(jsstring \<Rightarrow> json option) \<Rightarrow> env \<Rightarrow> db \<Rightarrow> jsstring option \<Rightarrow> jsstring option
     \<Rightarrow> int option \<Rightarrow> bool \<Rightarrow> jsstring option \<Rightarrow> nat \<times> db" where
  "PUT parse env d examName subjectName chapterNo notesFile quizString =
     (if \<not> connect_ok env then (500, d)
      else
        (case (examName, subjectName, chapterNo) of
           (Some e, Some s, Some n) \<Rightarrow>
             if e = [] \<or> s = [] then (400, d)
             else if \<not> findOne_ok env then (500, d)
             else
               (case findIndex (\<lambda>x. exam x = e) (exams d) of
                  None \<Rightarrow> (404, d)
                | Some i \<Rightarrow>
                    (case findIndex (\<lambda>x. name x = s) (subjects (exams d ! i)) of
                       None \<Rightarrow> (404, d)
                     | Some j \<Rightarrow>
                         (case findIndex (\<lambda>c. strict_eq_number (chapterNumber c) (to_double n 0))
                                 (chapters (subjects (exams d ! i) ! j)) of
                            None \<Rightarrow> (404, d)
                          | Some k \<Rightarrow>
                              (case update_notes env notesFile
                                      (chapters (subjects (exams d ! i) ! j) ! k) of
                                 Inl err \<Rightarrow> (500, d)
                               | Inr ch1 \<Rightarrow>
                                   (case update_quiz parse quizString ch1 of
                                      Inl status \<Rightarrow> (status, d)
                                    | Inr ch2 \<Rightarrow>
                                        if \<not> save_ok env then (500, d)
                                        else
                                          (200, d\<lparr>exams := (exams d)
                                            [i := (exams d ! i)\<lparr>subjects := (subjects (exams d ! i))
                                              [j := (subjects (exams d ! i) ! j)\<lparr>chapters :=
                                                (chapters (subjects (exams d ! i) ! j))
                                                  [k := ch2]\<rparr>]\<rparr>]\<rparr>))))))
         | _ \<Rightarrow> (400, d)))"

section \<open>Delete a chapter: DELETE\<close>

text \<open>
  The request body: \<^verbatim>\<open>exam\<close> and \<^verbatim>\<open>subject\<close>, each a string, or \<open>None\<close> for a value
  that is missing or falsy, and \<^verbatim>\<open>chapterNumber\<close> as it came, any value of
  \<^verbatim>\<open>JSON.parse\<close> or \<^verbatim>\<open>undefined\<close>. The handler tests it with \<^verbatim>\<open>isNaN\<close>, looks for the
  chapter whose number is \<^verbatim>\<open>=== Number(chapterNumber)\<close>, and hands it to
  \<^verbatim>\<open>deleteMany\<close> as it came: so \<^verbatim>\<open>null\<close>, \<^verbatim>\<open>false\<close> and the empty string pass the
  test and stand for chapter 0, a string of digits stands for its number, and only
  \<^verbatim>\<open>undefined\<close> and what has no number are refused with 400; a value whose
  conversion throws ends in the outer \<^verbatim>\<open>catch\<close>. The file of the chapter
  is deleted best effort, and \<^verbatim>\<open>deleteMany\<close> too stands in a \<^verbatim>\<open>try\<close> whose \<^verbatim>\<open>catch\<close>
  only logs. A \<^verbatim>\<open>deleteMany\<close> that resolves has removed the activity records of the
  same exam and subject whose chapter number the query matches: for a number, the
  records with that number; for another value, what the driver makes of it
  (\<^verbatim>\<open>undefined\<close> does not come this far). A \<^verbatim>\<open>save\<close> that throws leaves the exam
  documents as they were, after the activity records are gone.
\<close>

definition deleteMany_matches :: "env \<Rightarrow> json option \<Rightarrow> (int \<Rightarrow> bool) option" where
  "deleteMany_matches env chapterNo =
     (case chapterNo of
        None \<Rightarrow> None
      | Some (JNum m e) \<Rightarrow> Some (\<lambda>n. to_double n 0 = to_double m e)
      | Some v \<Rightarrow> cast_query env v)"

definition deleteMany ::
  "env \<Rightarrow> activity list \<Rightarrow> jsstring \<Rightarrow> jsstring \<Rightarrow> json option \<Rightarrow> js_error + activity list" where
  "deleteMany env acts e s chapterNo =
     (if \<not> deleteMany_ok env then Inl Error
      else
        (case deleteMany_matches env chapterNo of
           None \<Rightarrow> Inl Error
         | Some matches \<Rightarrow>
             Inr (filter (\<lambda>a. \<not> (activity_exam a = e \<and> activity_subject a = s \<and>
                                    matches (activity_chapterNumber a))) acts)))"

definition DELETE ::
  "env \<Rightarrow> db \<Rightarrow> jsstring option \<Rightarrow> jsstring option \<Rightarrow> json option \<Rightarrow> nat \<times> db" where
  "DELETE env d examName subjectName chapterNo =
     (if \<not> connect_ok env then (500, d)
      else
        (case (examName, subjectName) of
           (Some e, Some s) \<Rightarrow>
             if e = [] \<or> s = [] then (400, d)
             else
               (case to_number chapterNo of
                  Inl err \<Rightarrow> (500, d)
                | Inr n \<Rightarrow>
                    if n = NaN then (400, d)
                    else if \<not> findOne_ok env then (500, d)
                    else
                      (case findIndex (\<lambda>x. exam x = e) (exams d) of
                         None \<Rightarrow> (404, d)
                       | Some i \<Rightarrow>
                           (case findIndex (\<lambda>x. name x = s) (subjects (exams d ! i)) of
                              None \<Rightarrow> (404, d)
                            | Some j \<Rightarrow>
                                (case findIndex (\<lambda>c. strict_eq_number (chapterNumber c) n)
                                        (chapters (subjects (exams d ! i) ! j)) of
                                   None \<Rightarrow> (404, d)
                                 | Some k \<Rightarrow>
                                     (case (if publicId (chapters (subjects (exams d ! i) ! j) ! k)
                                                 \<noteq> []
                                            then try_deleteFromCloudinary env
                                                   (publicId
                                                      (chapters (subjects (exams d ! i) ! j) ! k))
                                            else Inr ()) of
                                        Inl err \<Rightarrow> (500, d)
                                      | Inr u \<Rightarrow>
                                          (let remaining =
                                                 (case deleteMany env (activities d) e s
                                                         chapterNo of
                                                    Inl err \<Rightarrow> activities d
                                                  | Inr acts \<Rightarrow> acts)
                                           in if \<not> save_ok env
                                              then (500, d\<lparr>activities := remaining\<rparr>)
                                              else
                                                (200,
                                                 \<lparr>exams = (exams d)
                                                    [i := (exams d ! i)\<lparr>subjects :=
                                                      (subjects (exams d ! i))
                                                        [j := (subjects (exams d ! i) ! j)
                                                           \<lparr>chapters :=
                                                              splice1 k
                                                                (chapters
                                                                  (subjects (exams d ! i) ! j))\<rparr>]\<rparr>],
                                                  activities = remaining\<rparr>)))))))
         | _ \<Rightarrow> (400, d)))"

section \<open>The activity log: POST and GET\<close>

text \<open>
  The body of a log request: five fields that are strings or missing, a chapter number
  that is a number or missing, and a quiz result that is an object or missing. The
  record is stamped with the server's clock and appended.
\<close>

definition POST_activity ::
  "env \<Rightarrow> db \<Rightarrow> jsstring option \<Rightarrow> jsstring option \<Rightarrow> jsstring option \<Rightarrow> jsstring option
     \<Rightarrow> int option \<Rightarrow> jsstring option \<Rightarrow> quiz_result option \<Rightarrow> nat \<times> db" where
  "POST_activity env d uid uname examName subjectName chapterNo actType result =
     (if \<not> connect_ok env then (500, d)
      else
        (case (uid, uname, examName, subjectName, chapterNo, actType) of
           (Some u, Some un, Some e, Some s, Some n, Some t) \<Rightarrow>
             if u = [] \<or> un = [] \<or> e = [] \<or> s = [] \<or> t = [] then (400, d)
             else if t \<notin> set [js ''notes_access'', js ''quiz_submission''] then (400, d)
             else if \<not> create_ok env then (500, d)
             else
               (201, d\<lparr>activities := activities d @
                  [\<lparr>userId = u, userName = un, activity_exam = e, activity_subject = s,
                    activity_chapterNumber = n, activityType = t,
                    quizResult = (if t = js ''quiz_submission'' then result else None),
                    timestamp = now env\<rparr>]\<rparr>)
         | _ \<Rightarrow> (400, d)))"

text \<open>
  The query. \<^verbatim>\<open>find(query).sort({timestamp: -1})\<close> is the matching records, newest
  first; among records of one timestamp the model keeps the order of insertion.
\<close>

definition GET_activity ::
  "env \<Rightarrow> db \<Rightarrow> jsstring option \<Rightarrow> jsstring option \<Rightarrow> nat \<times> activity list option" where
  "GET_activity env d uid isAdminParam =
     (if \<not> connect_ok env then (500, None)
      else
        (let isAdmin = (isAdminParam = Some (js ''true''))
         in if \<not> isAdmin \<and> falsy uid then (401, None)
            else if \<not> find_ok env then (500, None)
            else
              (200, Some (sort_key (\<lambda>a. - timestamp a)
                 (filter (\<lambda>a. \<not> falsy uid \<and> \<not> isAdmin \<longrightarrow> Some (userId a) = uid)
                    (activities d))))))"

section \<open>Submitting a quiz in the browser\<close>

text \<open>
  \<^verbatim>\<open>handleSubmitQuiz\<close>. The quiz on the page is typed, the answers of the user are an
  object keyed by the index of the question written in decimal.
\<close>

record quiz_question =
  question :: jsstring
  options :: "jsstring list"
  answer :: jsstring

text \<open>\<^verbatim>\<open>index.toString()\<close> of an array index.\<close>

function toString :: "nat \<Rightarrow> jsstring" where
  "toString n =
     (if n < 10 then [of_nat (48 + n)] else toString (n div 10) @ [of_nat (48 + n mod 10)])"
  by pat_completeness auto
termination
  by (relation "measure id") auto

declare toString.simps [simp del]

text \<open>\<^verbatim>\<open>quiz.reduce((acc, question, index) => ..., 0)\<close>\<close>

definition compute_score :: "(jsstring \<rightharpoonup> jsstring) \<Rightarrow> quiz_question list \<Rightarrow> int" where
  "compute_score userAnswers qs =
     foldl (\<lambda>acc (index, q).
              if userAnswers (toString index) = Some (answer q) then acc + 1 else acc)
       0 (enumerate 0 qs)"

text \<open>The \<^verbatim>\<open>quizResult\<close> of the body that \<^verbatim>\<open>handleSubmitQuiz\<close> posts to the log.\<close>

definition handleSubmitQuiz :: "(jsstring \<rightharpoonup> jsstring) \<Rightarrow> quiz_question list \<Rightarrow> quiz_result" where
  "handleSubmitQuiz userAnswers qs =
     \<lparr>score = compute_score userAnswers qs,
      totalQuestions = int (length qs),
      answers = userAnswers\<rparr>"

section \<open>Where a chapter is\<close>

text \<open>
  The three look-ups that PUT makes one after the other, as DELETE does with the
  number of its own request: the first exam of the name, in it the first subject of
  the name, in that the first chapter whose stored number is \<^verbatim>\<open>===\<close> the number.
  \<open>None\<close> if the exam, the subject or the chapter is absent.
\<close>

definition locate :: "db \<Rightarrow> jsstring \<Rightarrow> jsstring \<Rightarrow> int \<Rightarrow> (nat \<times> nat \<times> nat) option" where
  "locate d e s n =
     (case findIndex (\<lambda>x. exam x = e) (exams d) of
        None \<Rightarrow> None
      | Some i \<Rightarrow>
          (case findIndex (\<lambda>x. name x = s) (subjects (exams d ! i)) of
             None \<Rightarrow> None
           | Some j \<Rightarrow>
               (case findIndex (\<lambda>c. strict_eq_number (chapterNumber c) (to_double n 0))
                       (chapters (subjects (exams d ! i) ! j)) of
                  None \<Rightarrow> None
                | Some k \<Rightarrow> Some (i, j, k))))"

text \<open>The exam documents with the chapter list at a place changed.\<close>

definition with_chapters ::
  "exam_doc list \<Rightarrow> nat \<Rightarrow> nat \<Rightarrow> (chapter_doc list \<Rightarrow> chapter_doc list) \<Rightarrow> exam_doc list" where
  "with_chapters es i j f =
     es[i := (es ! i)\<lparr>subjects := (subjects (es ! i))
        [j := (subjects (es ! i) ! j)\<lparr>chapters := f (chapters (subjects (es ! i) ! j))\<rparr>]\<rparr>]"

section \<open>Sample data\<close>

text \<open>
  A world in which every outside call succeeds and the text service rejects; a
  database with the exam GATE, its subject Physics and chapter 1; a database with two
  exams, to delete from; and forms with every file slot filled, with none, and with
  one. The driver of the sample world reads a string or a boolean in a query as the
  number it stands for, finds no record for \<^verbatim>\<open>null\<close> and the empty string, and refuses
  every other value.
\<close>

definition sample_cast :: "json \<Rightarrow> (int \<Rightarrow> bool) option" where
  "sample_cast v =
     (case v of
        JNull \<Rightarrow> Some (\<lambda>n. False)
      | JBool b \<Rightarrow> Some (\<lambda>n. n = (if b then 1 else 0))
      | JStr s \<Rightarrow>
          if s = [] then Some (\<lambda>n. False)
          else if string_to_number s = NaN then None
          else Some (\<lambda>n. to_double n 0 = string_to_number s)
      | _ \<Rightarrow> None)"

definition env_ok :: env where
  "env_ok =
     \<lparr>connect_ok = True, findOne_ok = True, save_ok = True, deleteMany_ok = True,
      cast_query = sample_cast,
      create_ok = True, find_ok = True, deleteFromCloudinary_ok = True,
      uploadToCloudinary = (\<lambda>i j. Uploaded (Some (js ''https://files/new.pdf'')) (Some (js ''new''))),
      pdfText = (\<lambda>i j. Some (js ''abc'')),
      api_post = (\<lambda>i j ty k p. Rejects),
      now = 1000\<rparr>"

definition paris_question :: json where
  "paris_question =
     JObj [(js ''question'', JStr (js ''What is the capital of France?'')),
           (js ''options'', JArr [JStr (js ''Berlin''), JStr (js ''Madrid''),
                                  JStr (js ''Paris''), JStr (js ''Rome'')]),
           (js ''answer'', JStr (js ''Paris''))]"

definition chapter1_old :: chapter_doc where
  "chapter1_old = \<lparr>chapterNumber = Some (JNum 1 0), notesFileUrl = js ''https://files/old.pdf'',
     publicId = js ''old'', summary = js ''Old summary'', quiz = []\<rparr>"

definition chapter1_new :: chapter_doc where
  "chapter1_new = \<lparr>chapterNumber = Some (JNum 1 0), notesFileUrl = js ''https://files/new.pdf'',
     publicId = js ''new'', summary = js ''New summary'', quiz = [paris_question]\<rparr>"

definition chapter2_new :: chapter_doc where
  "chapter2_new = \<lparr>chapterNumber = Some (JNum 2 0), notesFileUrl = js ''https://files/two.pdf'',
     publicId = js ''two'', summary = js ''Summary two'', quiz = []\<rparr>"

definition chapter3_new :: chapter_doc where
  "chapter3_new = \<lparr>chapterNumber = Some (JNum 3 0), notesFileUrl = js ''https://files/three.pdf'',
     publicId = [], summary = js ''Summary three'', quiz = []\<rparr>"

definition gate_db :: db where
  "gate_db =
     \<lparr>exams = [\<lparr>exam = js ''GATE'',
                 subjects = [\<lparr>name = js ''Physics'', chapters = [chapter1_old]\<rparr>]\<rparr>],
      activities = []\<rparr>"

definition physics1_log :: "activity list" where
  "physics1_log =
     [\<lparr>userId = js ''u1'', userName = js ''Asha'', activity_exam = js ''GATE'',
       activity_subject = js ''Physics'', activity_chapterNumber = 1,
       activityType = js ''notes_access'', quizResult = None, timestamp = 10\<rparr>,
      \<lparr>userId = js ''u2'', userName = js ''Ravi'', activity_exam = js ''GATE'',
       activity_subject = js ''Physics'', activity_chapterNumber = 2,
       activityType = js ''notes_access'', quizResult = None, timestamp = 20\<rparr>]"

definition maths_log :: "activity list" where
  "maths_log =
     [\<lparr>userId = js ''u1'', userName = js ''Asha'', activity_exam = js ''GATE'',
       activity_subject = js ''Maths'', activity_chapterNumber = 0,
       activityType = js ''notes_access'', quizResult = None, timestamp = 30\<rparr>,
      \<lparr>userId = js ''u1'', userName = js ''Asha'', activity_exam = js ''GATE'',
       activity_subject = js ''Maths'', activity_chapterNumber = 2,
       activityType = js ''notes_access'', quizResult = None, timestamp = 40\<rparr>]"

definition jee_exam :: exam_doc where
  "jee_exam =
     \<lparr>exam = js ''JEE'', subjects = [\<lparr>name = js ''Physics'', chapters = [chapter2_new]\<rparr>]\<rparr>"

definition chapter0_old :: chapter_doc where
  "chapter0_old = \<lparr>chapterNumber = Some (JNum 0 0), notesFileUrl = js ''https://files/zero.pdf'',
     publicId = js ''zero'', summary = js ''Summary zero'', quiz = []\<rparr>"

definition maths_subject :: subject_doc where
  "maths_subject = \<lparr>name = js ''Maths'', chapters = [chapter0_old, chapter2_new]\<rparr>"

definition two_exams_db :: db where
  "two_exams_db =
     \<lparr>exams = [jee_exam,
               \<lparr>exam = js ''GATE'',
                subjects = [maths_subject,
                            \<lparr>name = js ''Physics'',
                             chapters = [chapter1_old, chapter2_new, chapter3_new]\<rparr>]\<rparr>],
      activities = physics1_log @ maths_log\<rparr>"

definition uploaded_chapter :: "json option \<Rightarrow> chapter_doc" where
  "uploaded_chapter n =
     \<lparr>chapterNumber = n, notesFileUrl = js ''https://files/new.pdf'', publicId = js ''new'',
      summary = js ''Summary generation failed.'', quiz = [paris_question]\<rparr>"

definition every_file :: "nat \<Rightarrow> nat \<Rightarrow> form_entry" where
  "every_file i j = FileEntry"



definition mixed_quiz_text :: jsstring where
  \<open>mixed_quiz_text =
     js (''[{"question":"","options":["a"],"answer":"a"},'' @
         ''{"question":"q","options":["a","b"],"answer":"a"}]'')\<close>

definition mixed_quiz_items :: "json list" where
  "mixed_quiz_items =
     [JObj [(js ''question'', JStr []), (js ''options'', JArr [JStr (js ''a'')]),
            (js ''answer'', JStr (js ''a''))],
      JObj [(js ''question'', JStr (js ''q'')),
            (js ''options'', JArr [JStr (js ''a''), JStr (js ''b'')]),
            (js ''answer'', JStr (js ''a''))]]"

section \<open>Properties of the quiz sanitizer\<close>

lemma filterE_Inr: "filterE p xs = Inr ys \<Longrightarrow> ys = filter (\<lambda>x. p x = Inr True) xs"
  by (induction xs arbitrary: ys) (auto split: sum.splits if_splits)

lemma nonempty_string_iff:
  "truthy_u v \<and> typeof v = js ''string'' \<longleftrightarrow> nonempty_string v"
  by (cases v rule: typeof.cases) (simp_all add: nonempty_string_def js_def)

lemma list_of_at_least_two_iff:
  "truthy_u v \<and> isArray v \<and> 2 \<le> array_length v \<longleftrightarrow> list_of_at_least_two v"
  by (cases v rule: typeof.cases) (simp_all add: list_of_at_least_two_def array_length_def)

lemma get_prop_not_null: "v \<noteq> JNull \<Longrightarrow> get_prop v k = Inr (member v k)"
  by (cases v) (auto simp: member_def)

lemma quiz_item_ok_not_null:
  assumes "item \<noteq> JNull"
  shows "quiz_item_ok item = Inr (nonempty_string (member item (js ''question'')) \<and>
     list_of_at_least_two (member item (js ''options'')) \<and>
     nonempty_string (member item (js ''answer'')))"
proof -
  have g: "get_prop item k = Inr (member item k)" for k
    using assms by (rule get_prop_not_null)
  show ?thesis
    unfolding quiz_item_ok_def g
    by (simp add: nonempty_string_iff list_of_at_least_two_iff)
qed

lemma quiz_item_ok_null: "quiz_item_ok JNull = Inl TypeError"
  by (simp add: quiz_item_ok_def)

lemma quiz_item_ok_True:
  "quiz_item_ok item = Inr True \<Longrightarrow> nonempty_string (member item (js ''question'')) \<and>
     list_of_at_least_two (member item (js ''options'')) \<and>
     nonempty_string (member item (js ''answer''))"
  by (cases "item = JNull") (simp_all add: quiz_item_ok_null quiz_item_ok_not_null)

lemma parseQuizData_try_Inr:
  "parseQuizData_try parse quizData = Inr entries \<Longrightarrow>
     entries = [] \<or> (\<exists>items. filterE quiz_item_ok items = Inr entries)"
  unfolding parseQuizData_try_def
  by (auto split: option.splits sum.splits if_splits)

text \<open>
  Claim C3, as the code has it. Every entry of the list \<^verbatim>\<open>parseQuizData\<close> returns has a
  non-empty string \<^verbatim>\<open>question\<close>, a non-empty string \<^verbatim>\<open>answer\<close>, and an \<^verbatim>\<open>options\<close>
  field that is a list of at least 2 elements. The elements of \<^verbatim>\<open>options\<close> are not
  looked at: the filter tests \<^verbatim>\<open>Array.isArray\<close> and the length only.
\<close>

theorem parseQuizData_entries_valid:
  assumes "parseQuizData parse quizData = Inr entries" and "item \<in> set entries"
  shows "nonempty_string (member item (js ''question'')) \<and>
         nonempty_string (member item (js ''answer'')) \<and>
         list_of_at_least_two (member item (js ''options''))"
proof -
  from assms(1) have "entries = [] \<or> (\<exists>items. filterE quiz_item_ok items = Inr entries)"
    by (auto simp: parseQuizData_def split: sum.splits dest: parseQuizData_try_Inr)
  then consider "entries = []" | items where "filterE quiz_item_ok items = Inr entries"
    by blast
  then show ?thesis
  proof cases
    case 1
    with assms(2) show ?thesis by simp
  next
    case 2
    then have "entries = filter (\<lambda>x. quiz_item_ok x = Inr True) items" by (rule filterE_Inr)
    with assms(2) have "quiz_item_ok item = Inr True" by simp
    then show ?thesis using quiz_item_ok_True by blast
  qed
qed

theorem parseQuizData_entries_valid_witness:
  \<open>parseQuizData JSON_parse (js ''{"quiz":[{"question":"q","options":["x","y"],"answer":"x"}]}'') =
     Inr [JObj [(js ''question'', JStr (js ''q'')), (js ''options'', JArr [JStr (js ''x''), JStr (js ''y'')]),
        (js ''answer'', JStr (js ''x''))]] \<and>
   nonempty_string (member (JObj [(js ''question'', JStr (js ''q'')),
        (js ''options'', JArr [JStr (js ''x''), JStr (js ''y'')]),
        (js ''answer'', JStr (js ''x''))]) (js ''question'')) \<and>
   nonempty_string (member (JObj [(js ''question'', JStr (js ''q'')),
        (js ''options'', JArr [JStr (js ''x''), JStr (js ''y'')]),
        (js ''answer'', JStr (js ''x''))]) (js ''answer'')) \<and>
   list_of_at_least_two (member (JObj [(js ''question'', JStr (js ''q'')),
        (js ''options'', JArr [JStr (js ''x''), JStr (js ''y'')]),
        (js ''answer'', JStr (js ''x''))]) (js ''options''))\<close>
proof -
  have p: \<open>parseQuizData JSON_parse
      (js ''{"quiz":[{"question":"q","options":["x","y"],"answer":"x"}]}'') =
     Inr [JObj [(js ''question'', JStr (js ''q'')), (js ''options'', JArr [JStr (js ''x''), JStr (js ''y'')]),
        (js ''answer'', JStr (js ''x''))]]\<close>
    by code_simp
  have m: \<open>JObj [(js ''question'', JStr (js ''q'')), (js ''options'', JArr [JStr (js ''x''), JStr (js ''y'')]),
        (js ''answer'', JStr (js ''x''))]
      \<in> set [JObj [(js ''question'', JStr (js ''q'')), (js ''options'', JArr [JStr (js ''x''), JStr (js ''y'')]),
        (js ''answer'', JStr (js ''x''))]]\<close>
    by simp
  from parseQuizData_entries_valid [OF p m] p show ?thesis by simp
qed

text \<open>
  Claim C3 as stated fails: the options of a returned entry need not be strings. The
  text \<^verbatim>\<open>{"quiz":[{"question":"q","options":[1,2],"answer":"a"}]}\<close> comes back with its
  entry kept, and the options of that entry are the numbers 1 and 2.
\<close>

theorem parseQuizData_options_counterexample:
  \<open>parseQuizData JSON_parse (js ''{"quiz":[{"question":"q","options":[1,2],"answer":"a"}]}'') =
     Inr [JObj [(js ''question'', JStr (js ''q'')), (js ''options'', JArr [JNum 1 0, JNum 2 0]),
        (js ''answer'', JStr (js ''a''))]] \<and>
   \<not> list_of_at_least_two_strings
     (member (JObj [(js ''question'', JStr (js ''q'')), (js ''options'', JArr [JNum 1 0, JNum 2 0]),
        (js ''answer'', JStr (js ''a''))]) (js ''options''))\<close>
  by code_simp

text \<open>
  Claim C8. If the cleaned text does not parse, or parses to a value with no
  \<^verbatim>\<open>quiz\<close> field that is a list, \<^verbatim>\<open>parseQuizData\<close> returns the empty list; and on
  every input it returns a list, never an exception.
\<close>

theorem parseQuizData_robust:
  "(parse (cleanQuizData quizData) = None \<longrightarrow> parseQuizData parse quizData = Inr []) \<and>
   (\<forall>v. parse (cleanQuizData quizData) = Some v \<and> quiz_list v = None \<longrightarrow>
        parseQuizData parse quizData = Inr []) \<and>
   (\<exists>entries. parseQuizData parse quizData = Inr entries)"
proof (intro conjI allI impI)
  assume "parse (cleanQuizData quizData) = None"
  then show "parseQuizData parse quizData = Inr []"
    by (simp add: parseQuizData_def parseQuizData_try_def)
next
  fix v
  assume a: "parse (cleanQuizData quizData) = Some v \<and> quiz_list v = None"
  show "parseQuizData parse quizData = Inr []"
  proof (cases "v = JNull")
    case True
    with a show ?thesis by (simp add: parseQuizData_def parseQuizData_try_def)
  next
    case False
    from a have q: "\<not> isArray (member v (js ''quiz''))"
      by (auto simp: quiz_list_def split: option.splits json.splits elim!: isArray.elims)
    from a False q show ?thesis
      by (simp add: parseQuizData_def parseQuizData_try_def get_prop_not_null)
  qed
next
  show "\<exists>entries. parseQuizData parse quizData = Inr entries"
    by (auto simp: parseQuizData_def split: sum.splits)
qed

theorem parseQuizData_robust_witness:
  \<open>JSON_parse (cleanQuizData (js ''Sorry, I cannot write a quiz.'')) = None \<and>
   parseQuizData JSON_parse (js ''Sorry, I cannot write a quiz.'') = Inr [] \<and>
   JSON_parse (cleanQuizData (js ''```json {"questions":[]} ```'')) =
     Some (JObj [(js ''questions'', JArr [])]) \<and>
   quiz_list (JObj [(js ''questions'', JArr [])]) = None \<and>
   parseQuizData JSON_parse (js ''```json {"questions":[]} ```'') = Inr []\<close>
proof -
  have 1: \<open>JSON_parse (cleanQuizData (js ''Sorry, I cannot write a quiz.'')) = None\<close>
    by code_simp
  have 2: \<open>JSON_parse (cleanQuizData (js ''```json {"questions":[]} ```'')) =
      Some (JObj [(js ''questions'', JArr [])])\<close>
    by code_simp
  have 3: \<open>quiz_list (JObj [(js ''questions'', JArr [])]) = None\<close>
    by code_simp
  from parseQuizData_robust [of JSON_parse \<open>js ''Sorry, I cannot write a quiz.''\<close>] 1
    parseQuizData_robust [of JSON_parse \<open>js ''```json {"questions":[]} ```''\<close>] 2 3
  show ?thesis by blast
qed

section \<open>Properties of the content generator\<close>

lemma textChunks_from_step:
  "i < length t \<Longrightarrow>
     textChunks_from i t = take maxLength (drop i t) # textChunks_from (i + maxLength) t"
  by (subst textChunks_from.simps) simp

lemma textChunks_from_done: "\<not> i < length t \<Longrightarrow> textChunks_from i t = []"
  by (subst textChunks_from.simps) simp

lemma textChunks_short: "t \<noteq> [] \<Longrightarrow> length t \<le> maxLength \<Longrightarrow> textChunks t = [t]"
  by (simp add: textChunks_def textChunks_from_step textChunks_from_done)

lemma concat_textChunks_from: "concat (textChunks_from i t) = drop i t"
proof (induction i t rule: textChunks_from.induct)
  case (1 i t)
  show ?case
  proof (cases "i < length t")
    case True
    have "take maxLength (drop i t) @ drop (i + maxLength) t = drop i t"
      by (metis add.commute append_take_drop_id drop_drop)
    with True "1.IH" show ?thesis by (simp add: textChunks_from_step)
  next
    case False
    then show ?thesis by (simp add: textChunks_from_done)
  qed
qed

lemma length_textChunks_from:
  "k < length (textChunks_from i t) \<longleftrightarrow> i + k * maxLength < length t"
proof (induction i t arbitrary: k rule: textChunks_from.induct)
  case (1 i t)
  show ?case
  proof (cases "i < length t")
    case True
    show ?thesis
    proof (cases k)
      case 0
      with True show ?thesis by (simp add: textChunks_from_step)
    next
      case (Suc k')
      with True "1.IH"[of k'] show ?thesis by (simp add: textChunks_from_step ac_simps)
    qed
  next
    case False
    then show ?thesis by (simp add: textChunks_from_done)
  qed
qed

lemma nth_textChunks_from:
  "k < length (textChunks_from i t) \<Longrightarrow>
     textChunks_from i t ! k = take maxLength (drop (i + k * maxLength) t)"
proof (induction i t arbitrary: k rule: textChunks_from.induct)
  case (1 i t)
  show ?case
  proof (cases "i < length t")
    case True
    show ?thesis
    proof (cases k)
      case 0
      with True show ?thesis by (simp add: textChunks_from_step)
    next
      case (Suc k')
      with True "1.prems" have "k' < length (textChunks_from (i + maxLength) t)"
        by (simp add: textChunks_from_step)
      with True "1.IH"[of k'] Suc show ?thesis by (simp add: textChunks_from_step ac_simps)
    qed
  next
    case False
    with "1.prems" show ?thesis by (simp add: textChunks_from_done)
  qed
qed

lemma map_enumerate_nth:
  "map (\<lambda>(i, x). f i x) (enumerate 0 xs) = map (\<lambda>i. f i (xs ! i)) [0..<length xs]"
  by (rule nth_equalityI) (simp_all add: nth_enumerate_eq)

lemma generateContent_responses:
  "generateContent post t ty =
     (let responses = map (\<lambda>i. post i (prompt ty (textChunks t ! i))) [0..<length (textChunks t)]
      in if Rejects \<in> set responses then fallback ty
         else join (js '' '') (map response_text responses))"
  unfolding generateContent_def map_enumerate_nth ..

text \<open>
  Claim C5, as the code has it. The chunks of \<^verbatim>\<open>generateContent\<close> are the consecutive
  pieces of \<open>maxLength\<close> code units of the text, the last one possibly shorter, and
  together they are the text. If every request resolves, the result is the texts of
  the responses in the order of the chunks, joined by one space; a response that
  resolves without a text stands there as the empty string. If a request rejects, the
  result is the fallback of the whole call: the fixed string in summary mode, the
  fixed JSON text of a one-question quiz in quiz mode.
\<close>

theorem generateContent_chunks_in_order_or_fallback:
  \<open>concat (textChunks t) = t \<and>
   (\<forall>k. k < length (textChunks t) \<longleftrightarrow> k * maxLength < length t) \<and>
   (\<forall>k < length (textChunks t).
      textChunks t ! k = take maxLength (drop (k * maxLength) t) \<and>
      length (textChunks t ! k) \<le> maxLength \<and>
      (Suc k < length (textChunks t) \<longrightarrow> length (textChunks t ! k) = maxLength)) \<and>
   ((\<forall>k < length (textChunks t). post k (prompt ty (textChunks t ! k)) \<noteq> Rejects) \<longrightarrow>
      generateContent post t ty =
        join (js '' '')
          (map (\<lambda>k. response_text (post k (prompt ty (textChunks t ! k))))
             [0..<length (textChunks t)])) \<and>
   ((\<exists>k < length (textChunks t). post k (prompt ty (textChunks t ! k)) = Rejects) \<longrightarrow>
      generateContent post t ty = fallback ty) \<and>
   fallback Summary = js ''Summary generation failed.'' \<and>
   JSON_parse (fallback Quiz) =
     Some (JObj [(js ''quiz'', JArr [JObj
       [(js ''question'', JStr (js ''What is the capital of France?'')),
        (js ''options'', JArr [JStr (js ''Berlin''), JStr (js ''Madrid''),
                               JStr (js ''Paris''), JStr (js ''Rome'')]),
        (js ''answer'', JStr (js ''Paris''))]])])\<close>
proof (intro conjI)
  show "concat (textChunks t) = t"
    by (simp add: textChunks_def concat_textChunks_from)
  show len: "\<forall>k. k < length (textChunks t) \<longleftrightarrow> k * maxLength < length t"
    by (simp add: textChunks_def length_textChunks_from)
  show "\<forall>k < length (textChunks t).
      textChunks t ! k = take maxLength (drop (k * maxLength) t) \<and>
      length (textChunks t ! k) \<le> maxLength \<and>
      (Suc k < length (textChunks t) \<longrightarrow> length (textChunks t ! k) = maxLength)"
  proof (intro allI impI)
    fix k
    assume k: "k < length (textChunks t)"
    then have n: "textChunks t ! k = take maxLength (drop (k * maxLength) t)"
      by (simp add: textChunks_def nth_textChunks_from)
    have "length (textChunks t ! k) = maxLength" if "Suc k < length (textChunks t)"
    proof -
      from that len have "Suc k * maxLength < length t" by blast
      then show ?thesis unfolding n by simp
    qed
    with n show "textChunks t ! k = take maxLength (drop (k * maxLength) t) \<and>
      length (textChunks t ! k) \<le> maxLength \<and>
      (Suc k < length (textChunks t) \<longrightarrow> length (textChunks t ! k) = maxLength)"
      by simp
  qed
  show "(\<forall>k < length (textChunks t). post k (prompt ty (textChunks t ! k)) \<noteq> Rejects) \<longrightarrow>
      generateContent post t ty =
        join (js '' '')
          (map (\<lambda>k. response_text (post k (prompt ty (textChunks t ! k))))
             [0..<length (textChunks t)])"
    by (auto simp: generateContent_responses Let_def comp_def)
  show "(\<exists>k < length (textChunks t). post k (prompt ty (textChunks t ! k)) = Rejects) \<longrightarrow>
      generateContent post t ty = fallback ty"
  proof
    assume "\<exists>k < length (textChunks t). post k (prompt ty (textChunks t ! k)) = Rejects"
    then obtain k where "k < length (textChunks t)"
      and "post k (prompt ty (textChunks t ! k)) = Rejects" by blast
    then have "Rejects \<in> set (map (\<lambda>i. post i (prompt ty (textChunks t ! i)))
        [0..<length (textChunks t)])"
      by (auto simp: image_iff intro!: bexI[of _ k])
    then show "generateContent post t ty = fallback ty"
      by (simp add: generateContent_responses)
  qed
  show "fallback Summary = js ''Summary generation failed.''"
    by (simp add: fallback_def)
  show \<open>JSON_parse (fallback Quiz) =
     Some (JObj [(js ''quiz'', JArr [JObj
       [(js ''question'', JStr (js ''What is the capital of France?'')),
        (js ''options'', JArr [JStr (js ''Berlin''), JStr (js ''Madrid''),
                               JStr (js ''Paris''), JStr (js ''Rome'')]),
        (js ''answer'', JStr (js ''Paris''))]])])\<close>
    by code_simp
qed

theorem generateContent_chunks_in_order_or_fallback_witness:
  \<open>textChunks (replicate 90000 0x61 @ [0x62]) = [replicate 90000 0x61, [0x62]] \<and>
   generateContent (\<lambda>k p. Resolves (Some [of_nat (48 + k)])) (replicate 90000 0x61 @ [0x62]) Summary
     = js ''0 1'' \<and>
   generateContent (\<lambda>k p. if k = 1 then Rejects else Resolves (Some [0x30]))
     (replicate 90000 0x61 @ [0x62]) Quiz = fallback Quiz\<close>
proof -
  define t :: jsstring where "t = replicate 90000 0x61 @ [0x62]"
  define good :: "nat \<Rightarrow> jsstring \<Rightarrow> api_result"
    where "good = (\<lambda>k p. Resolves (Some [of_nat (48 + k)]))"
  define bad :: "nat \<Rightarrow> jsstring \<Rightarrow> api_result"
    where "bad = (\<lambda>k p. if k = 1 then Rejects else Resolves (Some [0x30]))"
  note g = generateContent_chunks_in_order_or_fallback [of t good Summary]
  note b = generateContent_chunks_in_order_or_fallback [of t bad Quiz]
  from g have len: "\<forall>k. k < length (textChunks t) \<longleftrightarrow> k * maxLength < length t" by blast
  have "1 < length (textChunks t)" "\<not> 2 < length (textChunks t)"
    using len by (simp_all add: t_def maxLength_def)
  then have l2: "length (textChunks t) = 2" by linarith
  from g have nth: "\<forall>k < length (textChunks t).
      textChunks t ! k = take maxLength (drop (k * maxLength) t)" by blast
  from nth l2 have c0: "textChunks t ! 0 = take maxLength (drop (0 * maxLength) t)"
    and c1: "textChunks t ! 1 = take maxLength (drop (1 * maxLength) t)" by simp_all
  have chunks: "textChunks t = [replicate 90000 0x61, [0x62]]"
    using l2 c0 c1 by (intro nth_equalityI) (auto simp: t_def maxLength_def less_Suc_eq numeral_2_eq_2)
  have "\<forall>k < length (textChunks t). good k (prompt Summary (textChunks t ! k)) \<noteq> Rejects"
    by (simp add: good_def)
  with g have "generateContent good t Summary =
      join (js '' '') (map (\<lambda>k. response_text (good k (prompt Summary (textChunks t ! k))))
        [0..<length (textChunks t)])" by blast
  then have r1: "generateContent good t Summary = js ''0 1''"
    by (simp add: l2 good_def js_def upt_rec numeral_2_eq_2)
  have "\<exists>k < length (textChunks t). bad k (prompt Quiz (textChunks t ! k)) = Rejects"
    using l2 by (intro exI[of _ 1]) (simp add: bad_def)
  with b have r2: "generateContent bad t Quiz = fallback Quiz" by blast
  from chunks r1 r2 show ?thesis unfolding t_def good_def bad_def by simp
qed


text \<open>
  Claim C5 as stated fails where the failure is a malformed response: a response that
  resolves without candidates is not answered by the fallback. Its text is read as the
  empty string, here for the only chunk of the text \<^verbatim>\<open>abc\<close> in summary mode.
\<close>

theorem generateContent_malformed_response_counterexample:
  \<open>generateContent (\<lambda>k p. Resolves None) (js ''abc'') Summary = [] \<and>
   generateContent (\<lambda>k p. Resolves None) (js ''abc'') Summary \<noteq> fallback Summary\<close>
  by (simp add: generateContent_def textChunks_short js_def maxLength_def fallback_def)

section \<open>Properties of the POST handler\<close>

lemma findIndex_None_iff: "findIndex P xs = None \<longleftrightarrow> (\<forall>x \<in> set xs. \<not> P x)"
  by (induction xs) auto

lemma findIndex_Some_iff:
  "findIndex P xs = Some i \<longleftrightarrow> i < length xs \<and> P (xs ! i) \<and> (\<forall>j < i. \<not> P (xs ! j))"
proof (induction xs arbitrary: i)
  case Nil
  then show ?case by simp
next
  case (Cons x xs)
  show ?case
  proof (cases "P x")
    case True
    then show ?thesis by (cases i) auto
  next
    case False
    show ?thesis
    proof (cases i)
      case 0
      with False show ?thesis by auto
    next
      case (Suc i')
      have "(\<forall>j < Suc i'. \<not> P ((x # xs) ! j)) \<longleftrightarrow> (\<forall>j < i'. \<not> P (xs ! j))"
        using False by (auto simp: less_Suc_eq_0_disj)
      with False Suc Cons.IH[of i'] show ?thesis by auto
    qed
  qed
qed














lemma generateContent_rejects_short:
  "t \<noteq> [] \<Longrightarrow> length t \<le> maxLength \<Longrightarrow> generateContent (\<lambda>k p. Rejects) t ty = fallback ty"
  by (simp add: generateContent_def textChunks_short)

lemma parseQuizData_fallback: "parseQuizData JSON_parse (fallback Quiz) = Inr [paris_question]"
  by code_simp

lemma processChapter_env_ok:
  assumes "chapter_label c = Inr v"
  shows "processChapter JSON_parse env_ok (TextEntry ex) every_file i j c =
           Inr (Some (uploaded_chapter v))"
proof -
  have t: "js ''abc'' \<noteq> []" "length (js ''abc'') \<le> maxLength" by (simp_all add: js_def maxLength_def)
  have u: "js ''https://files/new.pdf'' \<noteq> []" "js ''new'' \<noteq> []" by (simp_all add: js_def)
  have fs: "fallback Summary = js ''Summary generation failed.''" by (simp add: fallback_def)
  show ?thesis
    using u assms
    by (simp add: processChapter_def env_ok_def every_file_def
        generateContent_rejects_short [OF t] parseQuizData_fallback uploaded_chapter_def fs)
qed

lemma to_double_small:
  "to_double 0 0 = Double 0 0" "to_double 1 0 = Double 1 0" "to_double 2 0 = Double 1 1"
  "to_double 3 0 = Double 3 0" "to_double 7 0 = Double 7 0" "to_double 10 (- 1) = Double 1 0"
  by code_simp+

lemma physics_keys:
  "js ''name'' \<noteq> js ''chapters''" "js ''chapters'' \<noteq> js ''name''"
  "trim (js ''Physics'') = js ''Physics''" "js ''Physics'' \<noteq> []"
  by (simp_all add: js_def trim_def is_js_space_def)

lemma processSubject_physics:
  assumes "chapter_label c = Inr v"
  shows "processSubject JSON_parse env_ok (TextEntry ex) every_file 0
           (JObj [(js ''name'', JStr (js ''Physics'')), (js ''chapters'', JArr [c])]) =
         Inr (Some \<lparr>name = js ''Physics'', chapters = [uploaded_chapter v]\<rparr>)"
  using assms
  by (simp add: processSubject_def name_trim_def chapters_length_def physics_keys
      enumerate_eq_zip processChapter_env_ok)

lemma POST_physics:
  assumes "JSON_parse t = Some (JArr [JObj [(js ''name'', JStr (js ''Physics'')),
                                           (js ''chapters'', JArr [c])]])"
    and "chapter_label c = Inr v"
  shows "POST JSON_parse env_ok gate_db (TextEntry (js ''GATE'')) (TextEntry t) every_file =
     (200, \<lparr>exams = [\<lparr>exam = js ''GATE'',
               subjects = [\<lparr>name = js ''Physics'',
                            chapters = merge_chapter [chapter1_old] (uploaded_chapter v)\<rparr>]\<rparr>],
            activities = []\<rparr>)"
proof -
  have g: "js ''GATE'' \<noteq> []" by (simp add: js_def)
  have f: "connect_ok env_ok" "findOne_ok env_ok" "save_ok env_ok"
    by (simp_all add: env_ok_def)
  show ?thesis
    using g f assms(1)
    by (simp add: POST_def POST_save_def merge_exam_def merge_subject_def
        processSubject_physics [OF assms(2)] gate_db_def)
qed

lemma merge_chapter_new:
  "(\<forall>c \<in> set cs. \<not> strict_eq (chapterNumber c) (chapterNumber nc)) \<Longrightarrow>
     merge_chapter cs nc = cs @ [nc]"
  by (simp add: merge_chapter_def findIndex_None_iff [THEN iffD2])

lemma merge_chapter_existing:
  "k < length cs \<Longrightarrow> strict_eq (chapterNumber (cs ! k)) (chapterNumber nc) \<Longrightarrow>
   (\<forall>k' < k. \<not> strict_eq (chapterNumber (cs ! k')) (chapterNumber nc)) \<Longrightarrow>
     merge_chapter cs nc =
       cs[k := (cs ! k)\<lparr>notesFileUrl := notesFileUrl nc, publicId := publicId nc,
                        summary := summary nc, quiz := quiz nc\<rparr>]"
  by (simp add: merge_chapter_def findIndex_Some_iff [THEN iffD2])

text \<open>
  Claim C4 fails on the code, which matches chapters by \<^verbatim>\<open>===\<close> on the
  \<^verbatim>\<open>chapterNumber\<close> it copied from the request as it came (lines 235 and 273), where
  PUT, GET and DELETE turn theirs into a number first. Against the exam GATE whose
  subject Physics has chapter 1, a request for chapter \<^verbatim>\<open>"1"\<close> of Physics, the number
  written as a string, does not overwrite chapter 1: it is answered 200 and a second
  chapter is appended behind the first, which stays as it was. The same request with
  the number \<^verbatim>\<open>1.0\<close> overwrites the file reference, summary and quiz of chapter 1 in
  place, the stored number staying as it was written.
\<close>

theorem POST_string_chapterNumber_appended:
  \<open>POST JSON_parse env_ok gate_db (TextEntry (js ''GATE''))
      (TextEntry (js ''[{"name":"Physics","chapters":[{"chapterNumber":"1"}]}]'')) every_file =
     (200, \<lparr>exams = [\<lparr>exam = js ''GATE'',
               subjects = [\<lparr>name = js ''Physics'',
                 chapters = [chapter1_old, uploaded_chapter (Some (JStr (js ''1'')))]\<rparr>]\<rparr>],
            activities = []\<rparr>) \<and>
   POST JSON_parse env_ok gate_db (TextEntry (js ''GATE''))
      (TextEntry (js ''[{"name":"Physics","chapters":[{"chapterNumber":1.0}]}]'')) every_file =
     (200, \<lparr>exams = [\<lparr>exam = js ''GATE'',
               subjects = [\<lparr>name = js ''Physics'',
                 chapters = [uploaded_chapter (Some (JNum 1 0))]\<rparr>]\<rparr>],
            activities = []\<rparr>)\<close>
proof -
  have p1: \<open>JSON_parse (js ''[{"name":"Physics","chapters":[{"chapterNumber":"1"}]}]'') =
      Some (JArr [JObj [(js ''name'', JStr (js ''Physics'')),
        (js ''chapters'', JArr [JObj [(js ''chapterNumber'', JStr (js ''1''))]])]])\<close>
    by code_simp
  have p2: \<open>JSON_parse (js ''[{"name":"Physics","chapters":[{"chapterNumber":1.0}]}]'') =
      Some (JArr [JObj [(js ''name'', JStr (js ''Physics'')),
        (js ''chapters'', JArr [JObj [(js ''chapterNumber'', JNum 10 (- 1))]])]])\<close>
    by code_simp
  have l1: "chapter_label (JObj [(js ''chapterNumber'', JStr (js ''1''))]) =
      Inr (Some (JStr (js ''1'')))"
    by (simp add: chapter_label_def)
  have l2: "chapter_label (JObj [(js ''chapterNumber'', JNum 10 (- 1))]) =
      Inr (Some (JNum 10 (- 1)))"
    by (simp add: chapter_label_def)
  have m1: "merge_chapter [chapter1_old] (uploaded_chapter (Some (JStr (js ''1'')))) =
      [chapter1_old, uploaded_chapter (Some (JStr (js ''1'')))]"
    by (simp add: merge_chapter_new chapter1_old_def uploaded_chapter_def)
  have m2: "merge_chapter [chapter1_old] (uploaded_chapter (Some (JNum 10 (- 1)))) =
      [uploaded_chapter (Some (JNum 1 0))]"
    using merge_chapter_existing [of 0 "[chapter1_old]" "uploaded_chapter (Some (JNum 10 (- 1)))"]
    by (simp add: chapter1_old_def uploaded_chapter_def to_double_small)
  from POST_physics [OF p1 l1] POST_physics [OF p2 l2] m1 m2 show ?thesis by simp
qed




section \<open>Properties of the DELETE handler\<close>

lemma try_deleteFromCloudinary_swallows: "try_deleteFromCloudinary env pid = Inr ()"
  by (simp add: try_deleteFromCloudinary_def deleteFromCloudinary_def)






lemma two_exams_names:
  "js ''JEE'' \<noteq> js ''GATE''" "js ''Maths'' \<noteq> js ''Physics''" "js ''GATE'' \<noteq> js ''Nope''"
  "js ''Physics'' \<noteq> js ''Nope''" "js ''Maths'' \<noteq> js ''Nope''" "js ''JEE'' \<noteq> js ''Nope''"
  "js ''GATE'' \<noteq> []" "js ''Physics'' \<noteq> []" "js ''Nope'' \<noteq> []" "js ''old'' \<noteq> []"
  "js ''Maths'' \<noteq> []" "js ''two'' \<noteq> []" "js ''zero'' \<noteq> []"
  by (simp_all add: js_def)


text \<open>
  What the handler makes of a \<^verbatim>\<open>chapterNumber\<close> that is no number, in the sample
  world. The string \<^verbatim>\<open>"2"\<close> is chapter 2, for the look-up and for the driver alike.
  \<^verbatim>\<open>null\<close> passes \<^verbatim>\<open>isNaN\<close> and stands for chapter 0 in the look-up: the request
  removes chapter 0 of Maths with status 200, while \<^verbatim>\<open>deleteMany\<close> is asked for the
  records of chapter \<^verbatim>\<open>null\<close> and leaves those of chapter 0. A missing
  \<^verbatim>\<open>chapterNumber\<close>, and a string that is no number, are refused with 400.
\<close>

lemma DELETE_coerced_chapterNumber:
  "DELETE env_ok two_exams_db (Some (js ''GATE'')) (Some (js ''Physics''))
     (Some (JStr (js ''2''))) =
     (200, \<lparr>exams = [jee_exam,
               \<lparr>exam = js ''GATE'',
                subjects = [maths_subject,
                            \<lparr>name = js ''Physics'', chapters = [chapter1_old, chapter3_new]\<rparr>]\<rparr>],
            activities = physics1_log ! 0 # maths_log\<rparr>) \<and>
   DELETE env_ok two_exams_db (Some (js ''GATE'')) (Some (js ''Maths'')) (Some JNull) =
     (200, \<lparr>exams = [jee_exam,
               \<lparr>exam = js ''GATE'',
                subjects = [\<lparr>name = js ''Maths'', chapters = [chapter2_new]\<rparr>,
                            \<lparr>name = js ''Physics'',
                             chapters = [chapter1_old, chapter2_new, chapter3_new]\<rparr>]\<rparr>],
            activities = physics1_log @ maths_log\<rparr>) \<and>
   DELETE env_ok two_exams_db (Some (js ''GATE'')) (Some (js ''Physics'')) None =
     (400, two_exams_db) \<and>
   DELETE env_ok two_exams_db (Some (js ''GATE'')) (Some (js ''Physics''))
     (Some (JStr (js ''two''))) = (400, two_exams_db)"
proof -
  have s2: "string_to_number (js ''2'') = Double 1 1" by code_simp
  have st: "string_to_number (js ''two'') = NaN" by code_simp
  have ne: "js ''2'' \<noteq> []" by (simp add: js_def)
  note n = two_exams_names
  show ?thesis
    using n ne
    by (simp add: DELETE_def to_number_def s2 st env_ok_def sample_cast_def two_exams_db_def
        jee_exam_def maths_subject_def chapter0_old_def chapter1_old_def chapter2_new_def
        chapter3_new_def to_double_small try_deleteFromCloudinary_swallows deleteMany_def
        deleteMany_matches_def splice1_def physics1_log_def maths_log_def)
qed

section \<open>Properties of the PUT handler\<close>

lemma locate_Some:
  "locate d e s n = Some (i, j, k) \<longleftrightarrow>
     findIndex (\<lambda>x. exam x = e) (exams d) = Some i \<and>
     findIndex (\<lambda>x. name x = s) (subjects (exams d ! i)) = Some j \<and>
     findIndex (\<lambda>c. strict_eq_number (chapterNumber c) (to_double n 0))
       (chapters (subjects (exams d ! i) ! j)) = Some k"
  by (auto simp: locate_def split: option.splits)

lemma PUT_located:
  assumes "connect_ok env" "findOne_ok env" "e \<noteq> []" "s \<noteq> []"
    and "locate d e s n = Some (i, j, k)"
  shows "PUT parse env d (Some e) (Some s) (Some n) notesFile quizString =
    (case update_notes env notesFile (chapters (subjects (exams d ! i) ! j) ! k) of
       Inl err \<Rightarrow> (500, d)
     | Inr ch1 \<Rightarrow>
         (case update_quiz parse quizString ch1 of
            Inl status \<Rightarrow> (status, d)
          | Inr ch2 \<Rightarrow>
              if \<not> save_ok env then (500, d)
              else (200, d\<lparr>exams := with_chapters (exams d) i j (\<lambda>cs. cs[k := ch2])\<rparr>)))"
  using assms by (simp add: PUT_def locate_Some with_chapters_def split: sum.splits)

lemma filterE_throws: "x \<in> set xs \<Longrightarrow> p x = Inl e \<Longrightarrow> \<exists>e'. filterE p xs = Inl e'"
  by (induction xs) (auto split: sum.splits)

lemma filterE_quiz_items:
  "JNull \<notin> set items \<Longrightarrow>
     filterE quiz_item_ok items =
       Inr (filter (\<lambda>x. nonempty_string (member x (js ''question'')) \<and>
                         list_of_at_least_two (member x (js ''options'')) \<and>
                         nonempty_string (member x (js ''answer''))) items)"
proof (induction items)
  case Nil
  then show ?case by simp
next
  case (Cons a items)
  then have "a \<noteq> JNull" by auto
  then show ?case using Cons by (simp add: quiz_item_ok_not_null)
qed

lemma update_quiz_unparsable:
  "qs \<noteq> [] \<Longrightarrow> parse qs = None \<Longrightarrow> update_quiz parse (Some qs) ch = Inl 400"
  by (simp add: update_quiz_def)

lemma update_quiz_list:
  "qs \<noteq> [] \<Longrightarrow> parse qs = Some (JArr items) \<Longrightarrow> JNull \<notin> set items \<Longrightarrow>
     update_quiz parse (Some qs) ch =
       Inr (ch\<lparr>quiz := filter (\<lambda>x. nonempty_string (member x (js ''question'')) \<and>
                         list_of_at_least_two (member x (js ''options'')) \<and>
                         nonempty_string (member x (js ''answer''))) items\<rparr>)"
  by (simp add: update_quiz_def filterE_quiz_items)

lemma update_quiz_null_entry:
  assumes "qs \<noteq> []" "parse qs = Some (JArr items)" "JNull \<in> set items"
  shows "update_quiz parse (Some qs) ch = Inl 400"
proof -
  from assms(3) obtain e' where "filterE quiz_item_ok items = Inl e'"
    using filterE_throws [of JNull items quiz_item_ok TypeError] by (auto simp: quiz_item_ok_null)
  with assms show ?thesis by (simp add: update_quiz_def)
qed

lemma update_quiz_not_list:
  "qs \<noteq> [] \<Longrightarrow> parse qs = Some v \<Longrightarrow> \<not> isArray (Some v) \<Longrightarrow>
     update_quiz parse (Some qs) ch = Inr ch"
  by (simp add: update_quiz_def)


lemma mixed_quiz_text_parses: "JSON_parse mixed_quiz_text = Some (JArr mixed_quiz_items)"
  by code_simp

lemma mixed_quiz_text_nonempty: "mixed_quiz_text \<noteq> []"
  by (simp add: mixed_quiz_text_def js_def)

lemma mixed_quiz_items_no_null: "JNull \<notin> set mixed_quiz_items"
  by (simp add: mixed_quiz_items_def)

lemma mixed_quiz_items_filtered:
  "filter (\<lambda>x. nonempty_string (member x (js ''question'')) \<and>
               list_of_at_least_two (member x (js ''options'')) \<and>
               nonempty_string (member x (js ''answer''))) mixed_quiz_items =
     [mixed_quiz_items ! 1]"
  by (simp add: mixed_quiz_items_def member_def nonempty_string_def list_of_at_least_two_def js_def)

lemma gate_db_locate_1: "locate gate_db (js ''GATE'') (js ''Physics'') 1 = Some (0, 0, 0)"
  by (simp add: locate_def gate_db_def chapter1_old_def)

lemma gate_db_chapter: "chapters (subjects (exams gate_db ! 0) ! 0) ! 0 = chapter1_old"
  by (simp add: gate_db_def)

lemma gate_db_with_chapter:
  "gate_db\<lparr>exams := with_chapters (exams gate_db) 0 0 (\<lambda>cs. cs[0 := c])\<rparr> =
     \<lparr>exams = [\<lparr>exam = js ''GATE'', subjects = [\<lparr>name = js ''Physics'', chapters = [c]\<rparr>]\<rparr>],
      activities = []\<rparr>"
  by (simp add: gate_db_def with_chapters_def)

lemma env_ok_flags:
  "connect_ok env_ok" "findOne_ok env_ok" "save_ok env_ok" "deleteMany_ok env_ok"
  "create_ok env_ok" "find_ok env_ok"
  by (simp_all add: env_ok_def)

lemma js_names_nonempty: "js ''GATE'' \<noteq> []" "js ''Physics'' \<noteq> []"
  by (simp_all add: js_def)


text \<open>
  Claim C1, as the code has it. Take a PUT request with a non-empty \<^verbatim>\<open>quiz\<close> field
  that reaches the quiz step: the database is reachable, exam and subject are named,
  the chapter is found, and the notes step, if there is a file, does not throw. If the
  quiz text does not parse, the status is 400 and the database is as before. If it
  parses to a list with a \<^verbatim>\<open>null\<close> entry, the filter callback throws on that entry
  and the status is again 400. If it parses to a list without \<^verbatim>\<open>null\<close>, the entries
  that fail the test (question a non-empty string, options a list of at least 2,
  answer a non-empty string) are dropped, the chapter's quiz becomes the entries that
  pass, and the status is 200. If it parses to a value that is no list, the quiz stays
  and the status is 200.
\<close>

theorem PUT_quiz_replacement:
  assumes "connect_ok env" and "findOne_ok env" and "e \<noteq> []" and "s \<noteq> []" and "qs \<noteq> []"
    and "locate d e s n = Some (i, j, k)"
    and "update_notes env notesFile (chapters (subjects (exams d ! i) ! j) ! k) = Inr ch1"
  shows
    "(parse qs = None \<longrightarrow>
        PUT parse env d (Some e) (Some s) (Some n) notesFile (Some qs) = (400, d)) \<and>
     (parse qs = Some (JArr items) \<and> JNull \<in> set items \<longrightarrow>
        PUT parse env d (Some e) (Some s) (Some n) notesFile (Some qs) = (400, d)) \<and>
     (parse qs = Some (JArr items) \<and> JNull \<notin> set items \<and> save_ok env \<longrightarrow>
        PUT parse env d (Some e) (Some s) (Some n) notesFile (Some qs) =
          (200, d\<lparr>exams := with_chapters (exams d) i j
             (\<lambda>cs. cs[k := ch1\<lparr>quiz :=
                filter (\<lambda>x. nonempty_string (member x (js ''question'')) \<and>
                            list_of_at_least_two (member x (js ''options'')) \<and>
                            nonempty_string (member x (js ''answer''))) items\<rparr>])\<rparr>)) \<and>
     (parse qs = Some v \<and> \<not> isArray (Some v) \<and> save_ok env \<longrightarrow>
        PUT parse env d (Some e) (Some s) (Some n) notesFile (Some qs) =
          (200, d\<lparr>exams := with_chapters (exams d) i j (\<lambda>cs. cs[k := ch1])\<rparr>))"
  using assms
  by (simp add: PUT_located update_quiz_unparsable update_quiz_list update_quiz_null_entry
      update_quiz_not_list)

theorem PUT_quiz_replacement_witness:
  \<open>PUT JSON_parse env_ok gate_db (Some (js ''GATE'')) (Some (js ''Physics'')) (Some 1) False
      (Some (js ''[{"question":'')) = (400, gate_db) \<and>
   PUT JSON_parse env_ok gate_db (Some (js ''GATE'')) (Some (js ''Physics'')) (Some 1) False
      (Some (js ''[null]'')) = (400, gate_db) \<and>
   PUT JSON_parse env_ok gate_db (Some (js ''GATE'')) (Some (js ''Physics'')) (Some 1) False
      (Some mixed_quiz_text) =
     (200, \<lparr>exams = [\<lparr>exam = js ''GATE'',
               subjects = [\<lparr>name = js ''Physics'',
                 chapters = [chapter1_old\<lparr>quiz := [mixed_quiz_items ! 1]\<rparr>]\<rparr>]\<rparr>],
            activities = []\<rparr>) \<and>
   PUT JSON_parse env_ok gate_db (Some (js ''GATE'')) (Some (js ''Physics'')) (Some 1) False
      (Some (js ''{"quiz":[]}'')) = (200, gate_db)\<close>
proof -
  have n: "update_notes env_ok False (chapters (subjects (exams gate_db ! 0) ! 0) ! 0) =
      Inr chapter1_old"
    by (simp add: update_notes_def gate_db_chapter)
  have p1: \<open>JSON_parse (js ''[{"question":'') = None\<close> by code_simp
  have p2: \<open>JSON_parse (js ''[null]'') = Some (JArr [JNull])\<close> by code_simp
  have p4: \<open>JSON_parse (js ''{"quiz":[]}'') = Some (JObj [(js ''quiz'', JArr [])])\<close> by code_simp
  have ne: \<open>js ''[{"question":'' \<noteq> []\<close> \<open>js ''[null]'' \<noteq> []\<close> \<open>js ''{"quiz":[]}'' \<noteq> []\<close>
    by (simp_all add: js_def)
  note T = PUT_quiz_replacement [OF env_ok_flags(1,2) js_names_nonempty _ gate_db_locate_1 n]
  have r1: \<open>PUT JSON_parse env_ok gate_db (Some (js ''GATE'')) (Some (js ''Physics'')) (Some 1) False
      (Some (js ''[{"question":'')) = (400, gate_db)\<close>
    using T [OF ne(1), of JSON_parse] p1 by simp
  have r2: \<open>PUT JSON_parse env_ok gate_db (Some (js ''GATE'')) (Some (js ''Physics'')) (Some 1) False
      (Some (js ''[null]'')) = (400, gate_db)\<close>
    using T [OF ne(2), of JSON_parse "[JNull]"] p2 by simp
  have r3: "PUT JSON_parse env_ok gate_db (Some (js ''GATE'')) (Some (js ''Physics'')) (Some 1) False
      (Some mixed_quiz_text) =
     (200, \<lparr>exams = [\<lparr>exam = js ''GATE'',
               subjects = [\<lparr>name = js ''Physics'',
                 chapters = [chapter1_old\<lparr>quiz := [mixed_quiz_items ! 1]\<rparr>]\<rparr>]\<rparr>],
            activities = []\<rparr>)"
    using T [OF mixed_quiz_text_nonempty, of JSON_parse mixed_quiz_items]
      mixed_quiz_text_parses mixed_quiz_items_no_null env_ok_flags(3)
    by (simp add: mixed_quiz_items_filtered gate_db_with_chapter)
  have r4: \<open>PUT JSON_parse env_ok gate_db (Some (js ''GATE'')) (Some (js ''Physics'')) (Some 1) False
      (Some (js ''{"quiz":[]}'')) = (200, gate_db)\<close>
    using T [OF ne(3), of JSON_parse _ "JObj [(js ''quiz'', JArr [])]"] p4 env_ok_flags(3)
    by (simp add: gate_db_with_chapter) (simp add: gate_db_def)
  from r1 r2 r3 r4 show ?thesis by simp
qed

text \<open>
  Claim C1 as stated fails: update-time validation is not strict. A replacement quiz
  of two entries, the first with an empty question and a single option, is accepted
  with status 200; the first entry fails the test and is dropped without a word, the
  second is stored.
\<close>

theorem PUT_invalid_entry_dropped_counterexample:
  "PUT JSON_parse env_ok gate_db (Some (js ''GATE'')) (Some (js ''Physics'')) (Some 1) False
      (Some mixed_quiz_text) =
     (200, \<lparr>exams = [\<lparr>exam = js ''GATE'',
               subjects = [\<lparr>name = js ''Physics'',
                 chapters = [chapter1_old\<lparr>quiz := [mixed_quiz_items ! 1]\<rparr>]\<rparr>]\<rparr>],
            activities = []\<rparr>) \<and>
   quiz_item_ok (mixed_quiz_items ! 0) = Inr False"
proof -
  have u: "update_quiz JSON_parse (Some mixed_quiz_text) chapter1_old =
      Inr (chapter1_old\<lparr>quiz := [mixed_quiz_items ! 1]\<rparr>)"
    using update_quiz_list [of mixed_quiz_text JSON_parse mixed_quiz_items chapter1_old]
      mixed_quiz_text_nonempty mixed_quiz_text_parses mixed_quiz_items_no_null
    by (simp add: mixed_quiz_items_filtered)
  have n: "update_notes env_ok False chapter1_old = Inr chapter1_old"
    by (simp add: update_notes_def)
  have "PUT JSON_parse env_ok gate_db (Some (js ''GATE'')) (Some (js ''Physics'')) (Some 1) False
      (Some mixed_quiz_text) =
     (200, gate_db\<lparr>exams := with_chapters (exams gate_db) 0 0
        (\<lambda>cs. cs[0 := chapter1_old\<lparr>quiz := [mixed_quiz_items ! 1]\<rparr>])\<rparr>)"
    by (simp add: PUT_located [OF env_ok_flags(1,2) js_names_nonempty gate_db_locate_1]
        gate_db_chapter n u env_ok_flags)
  moreover have "quiz_item_ok (mixed_quiz_items ! 0) = Inr False"
    by (simp add: quiz_item_ok_not_null mixed_quiz_items_def member_def nonempty_string_def js_def)
  ultimately show ?thesis by (simp add: gate_db_with_chapter)
qed


section \<open>Properties of the activity log\<close>

lemma js_kinds_distinct: "js ''notes_access'' \<noteq> js ''quiz_submission''"
  by (simp add: js_def)

text \<open>
  Claim C2, as the code has it. A log request that is accepted (status 201) appends
  one record and leaves the exam documents alone. The record's kind is one of the two
  kinds. A \<^verbatim>\<open>notes_access\<close> record carries no quiz result, whatever the request sent; a
  \<^verbatim>\<open>quiz_submission\<close> record carries the quiz result of the request, and none if the
  request had none.
\<close>

theorem POST_activity_quizResult:
  assumes "POST_activity env d uid uname examName subjectName chapterNo actType result = (201, d')"
  shows "\<exists>a. activities d' = activities d @ [a] \<and> exams d' = exams d \<and>
           (activityType a = js ''notes_access'' \<or> activityType a = js ''quiz_submission'') \<and>
           (activityType a = js ''notes_access'' \<longrightarrow> quizResult a = None) \<and>
           (activityType a = js ''quiz_submission'' \<longrightarrow> quizResult a = result)"
  using assms js_kinds_distinct
  by (auto simp: POST_activity_def split: if_splits option.splits)


theorem POST_activity_quizResult_witness:
  "POST_activity env_ok gate_db (Some (js ''u1'')) (Some (js ''Asha'')) (Some (js ''GATE''))
      (Some (js ''Physics'')) (Some 1) (Some (js ''notes_access''))
      (Some \<lparr>score = 1, totalQuestions = 2, answers = Map.empty\<rparr>) =
     (201, gate_db\<lparr>activities :=
        [\<lparr>userId = js ''u1'', userName = js ''Asha'', activity_exam = js ''GATE'',
          activity_subject = js ''Physics'', activity_chapterNumber = 1,
          activityType = js ''notes_access'', quizResult = None, timestamp = 1000\<rparr>]\<rparr>) \<and>
   (\<exists>a. activities (gate_db\<lparr>activities :=
        [\<lparr>userId = js ''u1'', userName = js ''Asha'', activity_exam = js ''GATE'',
          activity_subject = js ''Physics'', activity_chapterNumber = 1,
          activityType = js ''notes_access'', quizResult = None, timestamp = 1000\<rparr>]\<rparr>) =
          activities gate_db @ [a] \<and>
        activityType a = js ''notes_access'' \<and> quizResult a = None)"
proof -
  have p: "POST_activity env_ok gate_db (Some (js ''u1'')) (Some (js ''Asha'')) (Some (js ''GATE''))
      (Some (js ''Physics'')) (Some 1) (Some (js ''notes_access''))
      (Some \<lparr>score = 1, totalQuestions = 2, answers = Map.empty\<rparr>) =
     (201, gate_db\<lparr>activities :=
        [\<lparr>userId = js ''u1'', userName = js ''Asha'', activity_exam = js ''GATE'',
          activity_subject = js ''Physics'', activity_chapterNumber = 1,
          activityType = js ''notes_access'', quizResult = None, timestamp = 1000\<rparr>]\<rparr>)"
    by (simp add: POST_activity_def env_ok_def gate_db_def js_def)
  from POST_activity_quizResult [OF p] p show ?thesis
    by (auto simp: gate_db_def)
qed


text \<open>
  Claim C2 as stated fails in one direction: a \<^verbatim>\<open>quiz_submission\<close> sent without a
  quiz result is accepted with status 201 and stored without one.
\<close>

theorem POST_activity_submission_without_result_counterexample:
  "POST_activity env_ok gate_db (Some (js ''u1'')) (Some (js ''Asha'')) (Some (js ''GATE''))
      (Some (js ''Physics'')) (Some 1) (Some (js ''quiz_submission'')) None =
     (201, gate_db\<lparr>activities :=
        [\<lparr>userId = js ''u1'', userName = js ''Asha'', activity_exam = js ''GATE'',
          activity_subject = js ''Physics'', activity_chapterNumber = 1,
          activityType = js ''quiz_submission'', quizResult = None, timestamp = 1000\<rparr>]\<rparr>)"
  by (simp add: POST_activity_def env_ok_def gate_db_def js_def)


text \<open>
  Claim C6. With the database reachable: a query with no user identifier (missing or
  empty) and no admin flag is answered 401. A query with the admin flag gets status
  200 and all stored records, whatever user identifier it carries. Any other query
  gets status 200 and exactly the stored records whose \<^verbatim>\<open>userId\<close> is the requester's.
\<close>

theorem GET_activity_authorization:
  assumes "connect_ok env"
  shows
    "(isAdminParam \<noteq> Some (js ''true'') \<and> falsy uid \<longrightarrow>
        GET_activity env d uid isAdminParam = (401, None)) \<and>
     (find_ok env \<and> isAdminParam = Some (js ''true'') \<longrightarrow>
        (\<exists>r. GET_activity env d uid isAdminParam = (200, Some r) \<and>
             mset r = mset (activities d))) \<and>
     (find_ok env \<and> isAdminParam \<noteq> Some (js ''true'') \<and> uid = Some u \<and> u \<noteq> [] \<longrightarrow>
        (\<exists>r. GET_activity env d uid isAdminParam = (200, Some r) \<and>
             mset r = mset (filter (\<lambda>a. userId a = u) (activities d))))"
  using assms by (auto simp: GET_activity_def Let_def intro!: arg_cong[where f=mset] filter_cong)

theorem GET_activity_authorization_witness:
  "GET_activity env_ok (gate_db\<lparr>activities := physics1_log\<rparr>) None None = (401, None) \<and>
   GET_activity env_ok (gate_db\<lparr>activities := physics1_log\<rparr>) (Some []) (Some (js ''false'')) =
     (401, None) \<and>
   GET_activity env_ok (gate_db\<lparr>activities := physics1_log\<rparr>) (Some (js ''u1'')) (Some (js ''true'')) =
     (200, Some [physics1_log ! 1, physics1_log ! 0]) \<and>
   GET_activity env_ok (gate_db\<lparr>activities := physics1_log\<rparr>) None (Some (js ''true'')) =
     (200, Some [physics1_log ! 1, physics1_log ! 0]) \<and>
   GET_activity env_ok (gate_db\<lparr>activities := physics1_log\<rparr>) (Some (js ''u1'')) None =
     (200, Some [physics1_log ! 0]) \<and>
   mset [physics1_log ! 1, physics1_log ! 0] = mset (activities (gate_db\<lparr>activities := physics1_log\<rparr>)) \<and>
   mset [physics1_log ! 0] =
     mset (filter (\<lambda>a. userId a = js ''u1'') (activities (gate_db\<lparr>activities := physics1_log\<rparr>)))"
proof -
  let ?d = "gate_db\<lparr>activities := physics1_log\<rparr>"
  have c: "connect_ok env_ok" and f: "find_ok env_ok" by (simp_all add: env_ok_def)
  have tf: "Some (js ''false'') \<noteq> Some (js ''true'')" by (simp add: js_def)
  have u: "js ''u1'' \<noteq> []" by (simp add: js_def)
  have r1: "GET_activity env_ok ?d None None = (401, None)"
    using GET_activity_authorization [OF c, of None None ?d] by simp
  have r2: "GET_activity env_ok ?d (Some []) (Some (js ''false'')) = (401, None)"
    using GET_activity_authorization [OF c, of "Some (js ''false'')" "Some []" ?d] tf by simp
  have e3: "GET_activity env_ok ?d (Some (js ''u1'')) (Some (js ''true'')) =
     (200, Some [physics1_log ! 1, physics1_log ! 0])"
    by (simp add: GET_activity_def env_ok_def physics1_log_def js_def)
  have e4: "GET_activity env_ok ?d None (Some (js ''true'')) =
     (200, Some [physics1_log ! 1, physics1_log ! 0])"
    by (simp add: GET_activity_def env_ok_def physics1_log_def js_def)
  have e5: "GET_activity env_ok ?d (Some (js ''u1'')) None = (200, Some [physics1_log ! 0])"
    by (simp add: GET_activity_def env_ok_def physics1_log_def js_def)
  have m3: "mset [physics1_log ! 1, physics1_log ! 0] = mset (activities ?d)"
    using GET_activity_authorization [OF c, of "Some (js ''true'')" "Some (js ''u1'')" ?d] f e3
    by auto
  have m5: "mset [physics1_log ! 0] = mset (filter (\<lambda>a. userId a = js ''u1'') (activities ?d))"
    using GET_activity_authorization [OF c, of None "Some (js ''u1'')" ?d "js ''u1''"] f u e5
    by auto
  from r1 r2 e3 e4 e5 m3 m5 show ?thesis by simp
qed


section \<open>Properties of the quiz submission\<close>

lemma foldl_count:
  "foldl (\<lambda>acc x. if P x then acc + 1 else acc) (a::int) xs = a + int (length (filter P xs))"
  by (induction xs arbitrary: a) simp_all

lemma compute_score_card:
  "compute_score userAnswers qs =
     int (card {i. i < length qs \<and> userAnswers (toString i) = Some (answer (qs ! i))})"
proof -
  have "compute_score userAnswers qs =
      int (length (filter (\<lambda>(index, q). userAnswers (toString index) = Some (answer q))
        (enumerate 0 qs)))"
  proof -
    have "(\<lambda>acc (index, q). if userAnswers (toString index) = Some (answer q)
                             then acc + 1 else acc) =
          (\<lambda>(acc::int) x. if (\<lambda>(index, q). userAnswers (toString index) = Some (answer q)) x
                             then acc + 1 else acc)"
      by (auto simp: fun_eq_iff)
    then have "compute_score userAnswers qs =
        foldl (\<lambda>(acc::int) x. if (\<lambda>(index, q). userAnswers (toString index) = Some (answer q)) x
                             then acc + 1 else acc) 0 (enumerate 0 qs)"
      unfolding compute_score_def by (rule arg_cong[where f="\<lambda>f. foldl f 0 (enumerate 0 qs)"])
    then show ?thesis by (simp only: foldl_count)
  qed
  also have "\<dots> = int (card {i. i < length (enumerate 0 qs) \<and>
      (\<lambda>(index, q). userAnswers (toString index) = Some (answer q)) (enumerate 0 qs ! i)})"
    by (simp only: length_filter_conv_card)
  also have "{i. i < length (enumerate 0 qs) \<and>
      (\<lambda>(index, q). userAnswers (toString index) = Some (answer q)) (enumerate 0 qs ! i)} =
      {i. i < length qs \<and> userAnswers (toString i) = Some (answer (qs ! i))}"
    by (auto simp: nth_enumerate_eq)
  finally show ?thesis .
qed

lemma toString_digits:
  "toString 0 = js ''0''" "toString (Suc 0) = js ''1''" "toString 2 = js ''2''"
  "toString 9 = js ''9''" "toString 10 = js ''10''" "toString 11 = js ''11''"
  "toString 120 = js ''120''"
  by (simp_all add: toString.simps js_def)

lemma all_digits_append: "list_all is_digit (a @ b) \<longleftrightarrow> list_all is_digit a \<and> list_all is_digit b"
  by simp

lemma digits_val_snoc: "digits_val (ds @ [c]) = 10 * digits_val ds + (unat c - 0x30)"
  by (simp add: digits_val_def)

lemma digit_unit:
  assumes "n < 10"
  shows "is_digit (of_nat (48 + n))" and "unat (of_nat (48 + n) :: 16 word) - 0x30 = n"
    and "(of_nat (48 + n) :: 16 word) = 0x30 \<longleftrightarrow> n = 0"
proof -
  have "unat (of_nat (48 + n) :: 16 word) = (48 + n) mod 2 ^ LENGTH(16)"
    by (simp only: unat_of_nat)
  also have "\<dots> = 48 + n" using assms by simp
  finally have u: "unat (of_nat (48 + n) :: 16 word) = 48 + n" .
  show "unat (of_nat (48 + n) :: 16 word) - 0x30 = n" using u by simp
  have l: "(0x30 :: 16 word) \<le> of_nat (48 + n) \<longleftrightarrow> unat (0x30 :: 16 word) \<le> unat (of_nat (48 + n) :: 16 word)"
    by (rule word_le_nat_alt)
  have h: "of_nat (48 + n) \<le> (0x39 :: 16 word) \<longleftrightarrow> unat (of_nat (48 + n) :: 16 word) \<le> unat (0x39 :: 16 word)"
    by (rule word_le_nat_alt)
  show "is_digit (of_nat (48 + n))"
    unfolding is_digit_def l h u using assms by simp
  have "(of_nat (48 + n) :: 16 word) = 0x30 \<longleftrightarrow> unat (of_nat (48 + n) :: 16 word) = unat (0x30 :: 16 word)"
    by (rule word_unat_eq_iff)
  then show "(of_nat (48 + n) :: 16 word) = 0x30 \<longleftrightarrow> n = 0"
    unfolding u by simp
qed

lemma toString_decimal:
  "list_all is_digit (toString n) \<and> toString n \<noteq> [] \<and> digits_val (toString n) = n \<and>
   (hd (toString n) = 0x30 \<longrightarrow> n = 0)"
proof (induction n rule: toString.induct)
  case (1 n)
  show ?case
  proof (cases "n < 10")
    case True
    then have t: "toString n = [of_nat (48 + n)]" by (subst toString.simps) simp
    show ?thesis
      unfolding t using digit_unit [OF True] by (simp add: digits_val_def)
  next
    case False
    then have t: "toString n = toString (n div 10) @ [of_nat (48 + n mod 10)]"
      by (subst toString.simps) simp
    have m: "n mod 10 < 10" by simp
    from False have ih: "list_all is_digit (toString (n div 10)) \<and> toString (n div 10) \<noteq> [] \<and>
        digits_val (toString (n div 10)) = n div 10 \<and>
        (hd (toString (n div 10)) = 0x30 \<longrightarrow> n div 10 = 0)"
      using 1 by simp
    from False have nz: "n div 10 \<noteq> 0" by simp
    show ?thesis
      unfolding t using ih nz digit_unit [OF m]
      by (simp add: digits_val_snoc)
  qed
qed

text \<open>
  Claim C9. The key under which \<^verbatim>\<open>handleSubmitQuiz\<close> looks up the answer to question
  \<open>i\<close> is \<open>i\<close> written in decimal: digits only, no zero in front of another digit,
  and with the value \<open>i\<close>, so that two questions never share a key; the keys of the
  first questions are \<^verbatim>\<open>"0"\<close>, \<^verbatim>\<open>"1"\<close>, \<^verbatim>\<open>"2"\<close>, and the key of the eleventh is \<^verbatim>\<open>"10"\<close>.
  The score it logs is the number of question indices \<open>i\<close> at which the answer
  recorded under that key is the answer of question \<open>i\<close>; the logged total is the
  number of questions; the answers are logged as they are. For the answers
  \<^verbatim>\<open>{"0":"Paris","1":"Berlin"}\<close> and two questions with the answers Paris and Madrid
  the score is 1 and the total 2; for the answers \<^verbatim>\<open>{"0":"Madrid","1":"Paris"}\<close>, each
  right for the other question, the score is 0; and for \<^verbatim>\<open>{"1":"Madrid"}\<close>, the second
  question alone answered, and rightly, it is 1.
\<close>

theorem handleSubmitQuiz_score:
  "list_all is_digit (toString n) \<and> toString n \<noteq> [] \<and> digits_val (toString n) = n \<and>
   (hd (toString n) = 0x30 \<longrightarrow> n = 0) \<and>
   (toString n = toString m \<longleftrightarrow> n = m) \<and>
   toString 0 = js ''0'' \<and> toString 1 = js ''1'' \<and> toString 2 = js ''2'' \<and>
   toString 10 = js ''10'' \<and>
   score (handleSubmitQuiz userAnswers qs) =
     int (card {i. i < length qs \<and> userAnswers (toString i) = Some (answer (qs ! i))}) \<and>
   totalQuestions (handleSubmitQuiz userAnswers qs) = int (length qs) \<and>
   answers (handleSubmitQuiz userAnswers qs) = userAnswers \<and>
   (answer q0 = js ''Paris'' \<and> answer q1 = js ''Madrid'' \<longrightarrow>
      score (handleSubmitQuiz [js ''0'' \<mapsto> js ''Paris'', js ''1'' \<mapsto> js ''Berlin''] [q0, q1]) = 1 \<and>
      totalQuestions
        (handleSubmitQuiz [js ''0'' \<mapsto> js ''Paris'', js ''1'' \<mapsto> js ''Berlin''] [q0, q1]) = 2 \<and>
      score (handleSubmitQuiz [js ''0'' \<mapsto> js ''Madrid'', js ''1'' \<mapsto> js ''Paris''] [q0, q1]) = 0 \<and>
      score (handleSubmitQuiz [js ''1'' \<mapsto> js ''Madrid''] [q0, q1]) = 1)"
proof (intro conjI impI)
  show "list_all is_digit (toString n)" "toString n \<noteq> []" "digits_val (toString n) = n"
    using toString_decimal [of n] by simp_all
  show "n = 0" if "hd (toString n) = 0x30"
    using toString_decimal [of n] that by simp
  show "toString n = toString m \<longleftrightarrow> n = m"
  proof
    assume "toString n = toString m"
    then have "digits_val (toString n) = digits_val (toString m)" by simp
    then show "n = m" using toString_decimal [of n] toString_decimal [of m] by simp
  qed simp
  show "toString 0 = js ''0''" "toString 1 = js ''1''" "toString 2 = js ''2''"
    "toString 10 = js ''10''"
    by (simp_all add: toString_digits)
  show "score (handleSubmitQuiz userAnswers qs) =
     int (card {i. i < length qs \<and> userAnswers (toString i) = Some (answer (qs ! i))})"
    by (simp add: handleSubmitQuiz_def compute_score_card)
  show "totalQuestions (handleSubmitQuiz userAnswers qs) = int (length qs)"
    by (simp add: handleSubmitQuiz_def)
  show "answers (handleSubmitQuiz userAnswers qs) = userAnswers"
    by (simp add: handleSubmitQuiz_def)
next
  assume a: "answer q0 = js ''Paris'' \<and> answer q1 = js ''Madrid''"
  have d: "js ''0'' \<noteq> js ''1''" "js ''1'' \<noteq> js ''0''" "js ''Berlin'' \<noteq> js ''Madrid''"
    "js ''Madrid'' \<noteq> js ''Paris''" "js ''Paris'' \<noteq> js ''Madrid''"
    by (simp_all add: js_def)
  have e: "enumerate 0 [q0, q1] = [(0, q0), (1, q1)]" by (simp add: enumerate_eq_zip upt_rec)
  show "score (handleSubmitQuiz [js ''0'' \<mapsto> js ''Paris'', js ''1'' \<mapsto> js ''Berlin''] [q0, q1]) = 1"
    using a d by (simp add: handleSubmitQuiz_def compute_score_def e toString_digits)
  show "totalQuestions
        (handleSubmitQuiz [js ''0'' \<mapsto> js ''Paris'', js ''1'' \<mapsto> js ''Berlin''] [q0, q1]) = 2"
    by (simp add: handleSubmitQuiz_def)
  show "score (handleSubmitQuiz [js ''0'' \<mapsto> js ''Madrid'', js ''1'' \<mapsto> js ''Paris''] [q0, q1]) = 0"
    using a d by (simp add: handleSubmitQuiz_def compute_score_def e toString_digits)
  show "score (handleSubmitQuiz [js ''1'' \<mapsto> js ''Madrid''] [q0, q1]) = 1"
    using a d by (simp add: handleSubmitQuiz_def compute_score_def e toString_digits)
qed

theorem handleSubmitQuiz_score_witness:
  "answer \<lparr>question = js ''Capital of France?'', options = [js ''Paris'', js ''Rome''],
           answer = js ''Paris''\<rparr> = js ''Paris'' \<and>
   answer \<lparr>question = js ''Capital of Spain?'', options = [js ''Berlin'', js ''Madrid''],
           answer = js ''Madrid''\<rparr> = js ''Madrid'' \<and>
   handleSubmitQuiz [js ''0'' \<mapsto> js ''Paris'', js ''1'' \<mapsto> js ''Berlin'']
     [\<lparr>question = js ''Capital of France?'', options = [js ''Paris'', js ''Rome''],
       answer = js ''Paris''\<rparr>,
      \<lparr>question = js ''Capital of Spain?'', options = [js ''Berlin'', js ''Madrid''],
       answer = js ''Madrid''\<rparr>] =
     \<lparr>score = 1, totalQuestions = 2,
      answers = [js ''0'' \<mapsto> js ''Paris'', js ''1'' \<mapsto> js ''Berlin'']\<rparr> \<and>
   handleSubmitQuiz [js ''0'' \<mapsto> js ''Madrid'', js ''1'' \<mapsto> js ''Paris'']
     [\<lparr>question = js ''Capital of France?'', options = [js ''Paris'', js ''Rome''],
       answer = js ''Paris''\<rparr>,
      \<lparr>question = js ''Capital of Spain?'', options = [js ''Berlin'', js ''Madrid''],
       answer = js ''Madrid''\<rparr>] =
     \<lparr>score = 0, totalQuestions = 2,
      answers = [js ''0'' \<mapsto> js ''Madrid'', js ''1'' \<mapsto> js ''Paris'']\<rparr> \<and>
   handleSubmitQuiz [js ''1'' \<mapsto> js ''Madrid'']
     [\<lparr>question = js ''Capital of France?'', options = [js ''Paris'', js ''Rome''],
       answer = js ''Paris''\<rparr>,
      \<lparr>question = js ''Capital of Spain?'', options = [js ''Berlin'', js ''Madrid''],
       answer = js ''Madrid''\<rparr>] =
     \<lparr>score = 1, totalQuestions = 2, answers = [js ''1'' \<mapsto> js ''Madrid'']\<rparr> \<and>
   toString 0 = js ''0'' \<and> toString 1 = js ''1'' \<and> toString 10 = js ''10'' \<and>
   digits_val (toString 120) = 120 \<and> toString 120 = js ''120''"
proof -
  let ?q0 = "\<lparr>question = js ''Capital of France?'', options = [js ''Paris'', js ''Rome''],
         answer = js ''Paris''\<rparr>"
  let ?q1 = "\<lparr>question = js ''Capital of Spain?'', options = [js ''Berlin'', js ''Madrid''],
         answer = js ''Madrid''\<rparr>"
  note a = handleSubmitQuiz_score [of 120 0 "[js ''0'' \<mapsto> js ''Paris'', js ''1'' \<mapsto> js ''Berlin'']"
      "[?q0, ?q1]" ?q0 ?q1]
  note b = handleSubmitQuiz_score [of 120 0 "[js ''0'' \<mapsto> js ''Madrid'', js ''1'' \<mapsto> js ''Paris'']"
      "[?q0, ?q1]" ?q0 ?q1]
  note c = handleSubmitQuiz_score [of 120 0 "[js ''1'' \<mapsto> js ''Madrid'']" "[?q0, ?q1]" ?q0 ?q1]
  from a b c show ?thesis
    by (simp add: quiz_result.equality toString_digits)
qed


end
